theory Spec2Isabelle
  imports Main "HOL-Library.Word"
begin

section \<open>Values shared by the C module and the Lua facade\<close>

text \<open>
  The bridge consists of a C module (\<^verbatim>\<open>tnt_kafka.c\<close>) registered with the Lua runtime and
  a Lua facade (\<^verbatim>\<open>Consumer\<close>) on top of it.  Undefined behaviour of the C code is a value
  of type \<open>fault\<close>; a failure is either such a crash or a Lua error raised with
  \<^verbatim>\<open>luaL_error\<close>.
\<close>

datatype fault = UseAfterFree | NullDeref | BufferOverflow | OutOfBounds

datatype failure = Raise string | Crash fault

text \<open>
  A record as \<^verbatim>\<open>rd_kafka_message_t\<close> presents it.  \<open>rkt\<close> is the topic handle, identified
  with the name \<^verbatim>\<open>rd_kafka_topic_name\<close> returns for it.  \<open>payload\<close> and \<open>key\<close> are
  pointers: \<open>None\<close> is \<^verbatim>\<open>NULL\<close>, \<open>Some bs\<close> is the memory readable from the pointer on.
  \<open>len\<close> and \<open>key_len\<close> are \<^verbatim>\<open>size_t\<close>, hence never negative; \<open>partition\<close> is an
  \<^verbatim>\<open>int32_t\<close> and \<open>offset\<close> an \<^verbatim>\<open>int64_t\<close>.
\<close>

record rd_message =
  rkt :: string
  partition :: "32 word"
  payload :: "string option"
  len :: nat
  key :: "string option"
  key_len :: nat
  offset :: "64 word"

datatype event_type = RD_KAFKA_EVENT_FETCH | RD_KAFKA_EVENT_OTHER

record rd_event =
  ev_id :: nat
  ev_type :: event_type
  ev_name :: string
  ev_msgs :: "rd_message list"

text \<open>\<^verbatim>\<open>msg_t\<close>: \<open>rd_message\<close> is what \<^verbatim>\<open>rd_kafka_event_message_next\<close> returned
  (\<open>None\<close> when the event held no message), \<open>rd_event\<close> the event it was drawn from.\<close>

record msg_t =
  rd_message :: "rd_message option"
  rd_event :: rd_event

text \<open>
  Lua values.  A userdata created by this module holds one pointer: \<open>LConsumer p\<close> is a
  userdata tagged \<^verbatim>\<open>__tnt_kafka_consumer\<close> holding the address \<open>p\<close> of a \<^verbatim>\<open>consumer_t\<close>
  (\<open>None\<close> is \<^verbatim>\<open>NULL\<close>), \<open>LMessage m\<close> one tagged \<^verbatim>\<open>__tnt_kafka_consumer_msg\<close>
  holding a \<^verbatim>\<open>msg_t\<close>.  A table is the list of its entries in the order \<^verbatim>\<open>lua_next\<close>
  visits them.  Lua numbers are restricted to integral values small enough to print as
  plain decimals (below \<open>10^14\<close> in magnitude); \<open>LInt64\<close> is the boxed 64-bit integer
  \<^verbatim>\<open>luaL_pushint64\<close> creates.
\<close>

datatype lua_value =
    LNil
  | LBool bool
  | LNumber int
  | LInt64 "64 word"
  | LString string
  | LTable "(lua_value \<times> lua_value) list"
  | LConsumer "nat option"
  | LMessage "msg_t option"

subsection \<open>Strings of the C side\<close>

definition NUL :: char where
  "NUL = CHR 0x00"

text \<open>The C string starting at a buffer: everything before the first NUL byte.\<close>

definition cstr :: "string \<Rightarrow> string" where
  "cstr s = takeWhile (\<lambda>c. c \<noteq> NUL) s"

definition digit_char :: "nat \<Rightarrow> char" where
  "digit_char n = ''0123456789'' ! (n mod 10)"

fun digits :: "nat \<Rightarrow> string" where
  "digits n = (if n < 10 then [digit_char n] else digits (n div 10) @ [digit_char (n mod 10)])"

declare digits.simps [simp del]

text \<open>Decimal rendering of an integer, as \<^verbatim>\<open>%d\<close> prints it.\<close>

definition show_int :: "int \<Rightarrow> string" where
  "show_int i = (if i < 0 then CHR ''-'' # digits (nat (- i)) else digits (nat i))"

text \<open>\<^verbatim>\<open>safe_pushstring\<close>: \<^verbatim>\<open>lua_pushstring\<close> under \<^verbatim>\<open>lua_pcall\<close>; it pushes the C string.
  Running out of memory inside the call is not modelled, so the call never fails.\<close>

definition safe_pushstring :: "string \<Rightarrow> lua_value" where
  "safe_pushstring str = LString (cstr str)"

text \<open>\<^verbatim>\<open>strcpy\<close> into a local array of \<open>cap\<close> bytes: the string and its terminator must
  fit, otherwise the copy writes past the array.\<close>

definition strcpy_into :: "nat \<Rightarrow> string \<Rightarrow> failure + string" where
  "strcpy_into cap src =
     (if length (cstr src) + 1 \<le> cap then Inr (cstr src) else Inl (Crash BufferOverflow))"

section \<open>Consumer message (\<^verbatim>\<open>msg_t\<close>) accessors\<close>

definition fatal_msg :: string where
  "fatal_msg = ''Kafka consumer message fatal error: failed to retrieve message from lua stack!''"

text \<open>\<^verbatim>\<open>lua_check_consumer_msg(L, index)\<close>: \<^verbatim>\<open>luaL_checkudata\<close> raises unless the argument is a
  message userdata (the text of that error is abridged); a userdata whose pointer was
  reset raises the fatal error.\<close>

definition lua_check_consumer_msg :: "lua_value list \<Rightarrow> nat \<Rightarrow> failure + msg_t" where
  "lua_check_consumer_msg args index =
     (if length args < index \<or> index = 0 then Inl (Raise ''bad argument'')
      else case args ! (index - 1) of
             LMessage None \<Rightarrow> Inl (Raise fatal_msg)
           | LMessage (Some msg) \<Rightarrow> Inr msg
           | _ \<Rightarrow> Inl (Raise ''bad argument''))"

text \<open>Every accessor dereferences \<^verbatim>\<open>msg->rd_message\<close>; a null record pointer is a crash.\<close>

definition with_message :: "lua_value list \<Rightarrow> (rd_message \<Rightarrow> failure + 'a) \<Rightarrow> failure + 'a" where
  "with_message args f =
     (case lua_check_consumer_msg args 1 of
        Inl e \<Rightarrow> Inl e
      | Inr msg \<Rightarrow> (case rd_message msg of None \<Rightarrow> Inl (Crash NullDeref) | Some m \<Rightarrow> f m))"

text \<open>\<^verbatim>\<open>lua_consumer_msg_topic\<close>: the local array is declared
  \<^verbatim>\<open>char topic[sizeof(const_topic)]\<close>, the size of a pointer (8 bytes on a 64-bit target).\<close>

definition sizeof_pointer :: nat where
  "sizeof_pointer = 8"

definition lua_consumer_msg_topic :: "lua_value list \<Rightarrow> failure + lua_value list" where
  "lua_consumer_msg_topic args =
     with_message args (\<lambda>m.
       case strcpy_into sizeof_pointer (rkt m) of
         Inl e \<Rightarrow> Inl e
       | Inr topic \<Rightarrow> Inr [safe_pushstring topic])"

definition lua_consumer_msg_partition :: "lua_value list \<Rightarrow> failure + lua_value list" where
  "lua_consumer_msg_partition args =
     with_message args (\<lambda>m. Inr [LNumber (sint (partition m))])"

definition lua_consumer_msg_offset :: "lua_value list \<Rightarrow> failure + lua_value list" where
  "lua_consumer_msg_offset args =
     with_message args (\<lambda>m. Inr [LInt64 (offset m)])"

text \<open>\<^verbatim>\<open>lua_consumer_msg_key\<close> and \<^verbatim>\<open>lua_consumer_msg_value\<close>: \<^verbatim>\<open>return 0\<close> (no value at all)
  when the length is zero or the pointer null, otherwise \<^verbatim>\<open>lua_pushlstring\<close> of the first
  \<open>n\<close> bytes at the pointer.\<close>

definition push_bytes :: "nat \<Rightarrow> string option \<Rightarrow> lua_value list" where
  "push_bytes n p =
     (case p of
        None \<Rightarrow> []
      | Some bs \<Rightarrow> if n \<le> 0 then [] else [LString (take n bs)])"

definition lua_consumer_msg_key :: "lua_value list \<Rightarrow> failure + lua_value list" where
  "lua_consumer_msg_key args =
     with_message args (\<lambda>m. Inr (push_bytes (key_len m) (key m)))"

definition lua_consumer_msg_value :: "lua_value list \<Rightarrow> failure + lua_value list" where
  "lua_consumer_msg_value args =
     with_message args (\<lambda>m. Inr (push_bytes (len m) (payload m)))"

text \<open>
  \<^verbatim>\<open>lua_consumer_msg_tostring\<close>, the part done once for the key and once for the value: a
  local array of \<open>n + 1\<close> bytes (5 when \<open>n\<close> is zero) receives either the five bytes of
  \<^verbatim>\<open>"NULL"\<close> or the result of \<^verbatim>\<open>strncpy\<close> with the count \<open>n + 1\<close>, and is terminated at index
  \<open>n\<close>.  \<^verbatim>\<open>%s\<close> then prints the C string in the array.  \<^verbatim>\<open>strncpy\<close> reads the source up to
  its first NUL byte or up to \<open>n + 1\<close> bytes: unless a NUL byte stops it, it reads the
  byte at index \<open>n\<close>, which lies past the readable memory when only \<open>n\<close> bytes (or
  fewer) are readable at the pointer.
\<close>

definition strncpy_readable :: "nat \<Rightarrow> string \<Rightarrow> bool" where
  "strncpy_readable count bs = (NUL \<in> set bs \<or> count \<le> length bs)"

definition field_text :: "nat \<Rightarrow> string option \<Rightarrow> failure + string" where
  "field_text n p =
     (let cap = (if n \<le> 0 then 5 else n + 1) in
      case p of
        None \<Rightarrow> if 5 \<le> cap then Inr ''NULL'' else Inl (Crash BufferOverflow)
      | Some bs \<Rightarrow>
          if n \<le> 0 then Inr ''NULL''
          else if strncpy_readable (n + 1) bs then Inr (cstr (take n bs))
          else Inl (Crash OutOfBounds))"

text \<open>\<^verbatim>\<open>lua_pushfstring\<close> reads the argument of a \<^verbatim>\<open>%d\<close> as a 32-bit \<^verbatim>\<open>int\<close>: of the 64-bit
  offset the low 32 bits are printed.\<close>

definition lua_consumer_msg_tostring :: "lua_value list \<Rightarrow> failure + lua_value list" where
  "lua_consumer_msg_tostring args =
     with_message args (\<lambda>m.
       case field_text (key_len m) (key m) of
         Inl e \<Rightarrow> Inl e
       | Inr k \<Rightarrow>
          (case field_text (len m) (payload m) of
             Inl e \<Rightarrow> Inl e
           | Inr v \<Rightarrow>
               Inr [LString (''Kafka Consumer Message: topic='' @ cstr (rkt m)
                      @ '' partition='' @ show_int (sint (partition m))
                      @ '' offset='' @ show_int (sint (ucast (offset m) :: 32 word))
                      @ '' key='' @ k @ '' value='' @ v)]))"

section \<open>The native client and the process state\<close>

text \<open>
  The broker client library is outside the repository.  Its answers are the fields of a
  record \<open>librdkafka\<close>, so that every theorem holds for every behaviour of the library:
  \<open>conf_set_result key value\<close> is the diagnostic \<^verbatim>\<open>rd_kafka_conf_set\<close> writes when it rejects
  the pair, \<open>kafka_new_result\<close> the diagnostic of a failed \<^verbatim>\<open>rd_kafka_new\<close>,
  \<open>brokers_add_result\<close> the number of brokers \<^verbatim>\<open>rd_kafka_brokers_add\<close> accepted, the
  remaining three are \<^verbatim>\<open>rd_kafka_resp_err_t\<close> codes (0 is \<^verbatim>\<open>RD_KAFKA_RESP_ERR_NO_ERROR\<close>),
  and \<open>err2str\<close> is \<^verbatim>\<open>rd_kafka_err2str\<close>.
\<close>

record librdkafka =
  conf_set_result :: "string \<Rightarrow> string \<Rightarrow> string option"
  kafka_new_result :: "string option"
  brokers_add_result :: "string \<Rightarrow> nat"
  subscribe_result :: "(string \<times> int) list \<Rightarrow> int"
  offset_store_result :: "string \<Rightarrow> 32 word \<Rightarrow> 64 word \<Rightarrow> int"
  consumer_close_result :: int
  err2str :: "int \<Rightarrow> string"

text \<open>\<^verbatim>\<open>consumer_t\<close>.  The four handles are addresses of native objects; the topic list is
  owned by the struct alone and is kept by value (\<open>None\<close> is \<^verbatim>\<open>NULL\<close>).\<close>

record consumer_t =
  rd_config :: "nat option"
  rd_consumer :: "nat option"
  topics :: "(string \<times> int) list option"
  rd_event_queue :: "nat option"
  rd_msg_queue :: "nat option"

text \<open>Every call into the native library and into the allocator is logged, with the
  address of the object it creates or takes.\<close>

datatype native_call =
    Conf_new nat
  | Topic_conf_new nat
  | Conf_set_default_topic_conf nat nat
  | Conf_set nat string string
  | Kafka_new nat "nat option"
  | Brokers_add nat string
  | Queue_get_main nat nat
  | Queue_get_consumer nat nat
  | Malloc nat
  | Free nat
  | Topic_partition_list_new
  | Topic_partition_list_add string int
  | Topic_partition_list_destroy
  | Subscribe nat "(string \<times> int) list"
  | Queue_poll nat
  | Event_destroy nat
  | Offset_store string "32 word" "64 word"
  | Queue_destroy nat
  | Kafka_consumer_close nat

fun is_allocation :: "native_call \<Rightarrow> bool" where
  "is_allocation (Conf_new _) = True"
| "is_allocation (Topic_conf_new _) = True"
| "is_allocation (Kafka_new _ r) = (r \<noteq> None)"
| "is_allocation (Queue_get_main _ _) = True"
| "is_allocation (Queue_get_consumer _ _) = True"
| "is_allocation (Malloc _) = True"
| "is_allocation Topic_partition_list_new = True"
| "is_allocation _ = False"

text \<open>The calls the Lua facade makes to the host scheduler (fibers, channel, log); a
  sleep of 0.01 s is \<open>Sleep_ms 10\<close>.\<close>

datatype loop = Loop_poll | Loop_poll_msg

datatype host_effect =
    Fiber_create loop
  | Fiber_cancel loop
  | Channel_new nat
  | Channel_close
  | Channel_put lua_value
  | Sleep_ms nat
  | Yield
  | Log_error lua_value

text \<open>
  The process state: the log of native calls, the C heap of \<^verbatim>\<open>consumer_t\<close> structs, the
  next fresh address, what the record queue will answer to the coming non-blocking polls
  (\<open>None\<close> is "no data"), the offsets the native client has stored, and the log of host
  effects.
\<close>

record world =
  calls :: "native_call list"
  heap :: "nat \<Rightarrow> consumer_t option"
  next_id :: nat
  poll_script :: "rd_event option list"
  stored :: "string \<times> 32 word \<Rightarrow> 64 word option"
  host :: "host_effect list"

definition call :: "native_call \<Rightarrow> world \<Rightarrow> world" where
  "call c w = w\<lparr>calls := calls w @ [c]\<rparr>"

definition fresh :: "world \<Rightarrow> nat \<times> world" where
  "fresh w = (next_id w, w\<lparr>next_id := next_id w + 1\<rparr>)"

definition effect :: "host_effect list \<Rightarrow> world \<Rightarrow> world" where
  "effect es w = w\<lparr>host := host w @ es\<rparr>"

definition native_allocations :: "world \<Rightarrow> native_call list" where
  "native_allocations w = filter is_allocation (calls w)"

section \<open>Lua stack helpers\<close>

text \<open>\<^verbatim>\<open>lua_isstring\<close> accepts strings and numbers; \<^verbatim>\<open>lua_tostring\<close> converts a number to its
  text and returns \<^verbatim>\<open>NULL\<close> for every other non-string.\<close>

fun lua_isstring :: "lua_value \<Rightarrow> bool" where
  "lua_isstring (LString _) = True"
| "lua_isstring (LNumber _) = True"
| "lua_isstring _ = False"

fun lua_tostring :: "lua_value \<Rightarrow> string option" where
  "lua_tostring (LString s) = Some (cstr s)"
| "lua_tostring (LNumber n) = Some (show_int n)"
| "lua_tostring _ = None"

fun lua_istable :: "lua_value \<Rightarrow> bool" where
  "lua_istable (LTable _) = True"
| "lua_istable _ = False"

text \<open>\<^verbatim>\<open>lua_gettable\<close> with a constant key: the value stored under it, or nil.\<close>

fun lua_gettable :: "(lua_value \<times> lua_value) list \<Rightarrow> lua_value \<Rightarrow> lua_value" where
  "lua_gettable [] k = LNil"
| "lua_gettable ((k', v) # rest) k = (if k' = k then v else lua_gettable rest k)"

text \<open>\<^verbatim>\<open>lua_next\<close> given the previous key: the entries that follow that key in the table, and
  none when the key is not in the table (the runtime then raises).\<close>

fun entries_after :: "lua_value \<Rightarrow> (lua_value \<times> lua_value) list \<Rightarrow> (lua_value \<times> lua_value) list option" where
  "entries_after k [] = None"
| "entries_after k ((k', v) # rest) = (if k' = k then Some rest else entries_after k rest)"

text \<open>The values a Lua caller binds from a call returning \<open>rets\<close>: missing ones are nil.\<close>

definition ret :: "lua_value list \<Rightarrow> nat \<Rightarrow> lua_value" where
  "ret rets i = (if i < length rets then rets ! i else LNil)"

section \<open>Consumer message: release and offset store\<close>

text \<open>\<^verbatim>\<open>lua_consumer_msg_gc\<close>: destroys the event of a live handle and resets the pointer of
  the userdata; the result is the userdata after the call.\<close>

definition lua_consumer_msg_gc :: "lua_value list \<Rightarrow> world \<Rightarrow> failure + (lua_value \<times> world)" where
  "lua_consumer_msg_gc args w =
     (case args of
        LMessage (Some msg) # _ \<Rightarrow> Inr (LMessage None, call (Event_destroy (ev_id (rd_event msg))) w)
      | LMessage None # _ \<Rightarrow> Inr (LMessage None, w)
      | _ \<Rightarrow> Inl (Raise ''bad argument''))"

text \<open>\<^verbatim>\<open>rd_kafka_offset_store\<close>: the call is logged; the stub client keeps the offset it was
  handed when it reports no error.\<close>

definition rd_kafka_offset_store ::
    "librdkafka \<Rightarrow> string \<Rightarrow> 32 word \<Rightarrow> 64 word \<Rightarrow> world \<Rightarrow> int \<times> world" where
  "rd_kafka_offset_store K t p off w =
     (let err = offset_store_result K t p off;
          w1 = call (Offset_store t p off) w
      in (err, if err = 0 then w1\<lparr>stored := (stored w1)((t, p) \<mapsto> off)\<rparr> else w1))"

text \<open>The error path shared by subscribe, store_offset and close: the text of the code is
  copied into \<^verbatim>\<open>char err_str[512]\<close> and pushed.\<close>

definition push_err_str :: "librdkafka \<Rightarrow> int \<Rightarrow> failure + lua_value" where
  "push_err_str K err =
     (case strcpy_into 512 (err2str K err) of
        Inl e \<Rightarrow> Inl e
      | Inr err_str \<Rightarrow> Inr (safe_pushstring err_str))"

definition lua_consumer_store_offset ::
    "librdkafka \<Rightarrow> lua_value list \<Rightarrow> world \<Rightarrow> failure + (lua_value list \<times> world)" where
  "lua_consumer_store_offset K args w =
     (if length args \<noteq> 2 then Inl (Raise ''Usage: err = consumer:store_offset(msg)'')
      else case lua_check_consumer_msg args 2 of
        Inl e \<Rightarrow> Inl e
      | Inr msg \<Rightarrow>
         (case rd_message msg of
            None \<Rightarrow> Inl (Crash NullDeref)
          | Some m \<Rightarrow>
             (case rd_kafka_offset_store K (rkt m) (partition m) (offset m) w of
                (err, w1) \<Rightarrow>
                  if err \<noteq> 0
                  then (case push_err_str K err of Inl e \<Rightarrow> Inl e | Inr s \<Rightarrow> Inr ([s], w1))
                  else Inr ([], w1))))"

section \<open>Consumer (\<^verbatim>\<open>consumer_t\<close>)\<close>

definition fatal_consumer :: string where
  "fatal_consumer = ''Kafka consumer fatal error: failed to retrieve consumer from lua stack!''"

text \<open>\<^verbatim>\<open>lua_check_consumer(L, index)\<close> returns the pointer the userdata holds.\<close>

definition lua_check_consumer :: "lua_value list \<Rightarrow> nat \<Rightarrow> failure + nat" where
  "lua_check_consumer args index =
     (if length args < index \<or> index = 0 then Inl (Raise ''bad argument'')
      else case args ! (index - 1) of
             LConsumer None \<Rightarrow> Inl (Raise fatal_consumer)
           | LConsumer (Some a) \<Rightarrow> Inr a
           | _ \<Rightarrow> Inl (Raise ''bad argument''))"

text \<open>Reading a field of \<^verbatim>\<open>*consumer\<close>: the struct must still be allocated.\<close>

definition deref :: "world \<Rightarrow> nat \<Rightarrow> failure + consumer_t" where
  "deref w a = (case heap w a of None \<Rightarrow> Inl (Crash UseAfterFree) | Some c \<Rightarrow> Inr c)"

subsection \<open>subscribe\<close>

text \<open>The \<^verbatim>\<open>lua_next\<close> loop of \<^verbatim>\<open>lua_consumer_subscribe\<close>: each value goes through
  \<^verbatim>\<open>lua_tostring\<close> and is appended with partition \<open>-1\<close>; the native list duplicates the name
  it is given, so a \<^verbatim>\<open>NULL\<close> name is a null dereference.\<close>

fun subscribe_loop ::
    "(lua_value \<times> lua_value) list \<Rightarrow> (string \<times> int) list \<Rightarrow> world
      \<Rightarrow> failure + ((string \<times> int) list \<times> world)" where
  "subscribe_loop [] tps w = Inr (tps, w)"
| "subscribe_loop ((k, v) # rest) tps w =
     (case lua_tostring v of
        None \<Rightarrow> Inl (Crash NullDeref)
      | Some name \<Rightarrow> subscribe_loop rest (tps @ [(name, -1)]) (call (Topic_partition_list_add name (-1)) w))"

definition set_topics :: "nat \<Rightarrow> (string \<times> int) list \<Rightarrow> world \<Rightarrow> world" where
  "set_topics a tps w =
     (case heap w a of
        None \<Rightarrow> w
      | Some c \<Rightarrow> w\<lparr>heap := (heap w)(a \<mapsto> c\<lparr>topics := Some tps\<rparr>)\<rparr>)"

definition lua_consumer_subscribe ::
    "librdkafka \<Rightarrow> lua_value list \<Rightarrow> world \<Rightarrow> failure + (lua_value list \<times> world)" where
  "lua_consumer_subscribe K args w =
     (if length args \<noteq> 2 \<or> \<not> lua_istable (args ! 1)
      then Inl (Raise ''Usage: err = consumer:subscribe({'topic'})'')
      else case lua_check_consumer args 1 of
        Inl e \<Rightarrow> Inl e
      | Inr a \<Rightarrow>
         (case deref w a of
            Inl e \<Rightarrow> Inl e
          | Inr consumer \<Rightarrow>
             (case (case topics consumer of
                      None \<Rightarrow> subscribe_loop (case args ! 1 of LTable t \<Rightarrow> t | _ \<Rightarrow> []) []
                                (call Topic_partition_list_new w)
                    | Some tps \<Rightarrow> subscribe_loop (case args ! 1 of LTable t \<Rightarrow> t | _ \<Rightarrow> []) tps w) of
                Inl e \<Rightarrow> Inl e
              | Inr (tps, w1) \<Rightarrow>
                 (case rd_consumer consumer of
                    None \<Rightarrow> Inl (Crash NullDeref)
                  | Some r \<Rightarrow>
                     (let w2 = call (Subscribe r tps) (set_topics a tps w1);
                          err = subscribe_result K tps
                      in if err \<noteq> 0
                         then (case push_err_str K err of Inl e \<Rightarrow> Inl e | Inr s \<Rightarrow> Inr ([s], w2))
                         else Inr ([], w2))))))"

subsection \<open>poll_msg\<close>

text \<open>\<^verbatim>\<open>rd_kafka_queue_poll(queue, 0)\<close>: the next scripted answer of the record queue.\<close>

definition rd_kafka_queue_poll :: "nat \<Rightarrow> world \<Rightarrow> rd_event option \<times> world" where
  "rd_kafka_queue_poll q w =
     (case poll_script w of
        [] \<Rightarrow> (None, call (Queue_poll q) w)
      | r # rs \<Rightarrow> (r, call (Queue_poll q) (w\<lparr>poll_script := rs\<rparr>)))"

text \<open>\<^verbatim>\<open>rd_kafka_event_message_next\<close> on a fresh event: its first message, if any.\<close>

definition rd_kafka_event_message_next :: "rd_event \<Rightarrow> rd_message option" where
  "rd_kafka_event_message_next event = (case ev_msgs event of [] \<Rightarrow> None | m # _ \<Rightarrow> Some m)"

text \<open>The userdata \<^verbatim>\<open>lua_consumer_poll_msg\<close> builds for a fetched event: a \<^verbatim>\<open>msg_t\<close> holding
  the event and the one record taken from it.\<close>

definition message_handle :: "rd_event \<Rightarrow> lua_value" where
  "message_handle event =
     LMessage (Some \<lparr>rd_message = rd_kafka_event_message_next event, rd_event = event\<rparr>)"

definition unexpected_event :: "rd_event \<Rightarrow> string" where
  "unexpected_event event =
     ''got unexpected event type of '' @ [CHR 0x27] @ cstr (ev_name event) @ [CHR 0x27]"

definition lua_consumer_poll_msg ::
    "lua_value list \<Rightarrow> world \<Rightarrow> failure + (lua_value list \<times> world)" where
  "lua_consumer_poll_msg args w =
     (if length args \<noteq> 1 then Inl (Raise ''Usage: msg, err = consumer:poll_msg()'')
      else case lua_check_consumer args 1 of
        Inl e \<Rightarrow> Inl e
      | Inr a \<Rightarrow>
         (case deref w a of
            Inl e \<Rightarrow> Inl e
          | Inr consumer \<Rightarrow>
             (case rd_msg_queue consumer of
                None \<Rightarrow> Inl (Crash NullDeref)
              | Some q \<Rightarrow>
                 (case rd_kafka_queue_poll q w of
                    (None, w1) \<Rightarrow> Inr ([LNil], w1)
                  | (Some event, w1) \<Rightarrow>
                      if ev_type event = RD_KAFKA_EVENT_FETCH
                      then Inr ([message_handle event], w1)
                      else Inr ([LNil, LString (unexpected_event event)],
                                call (Event_destroy (ev_id event)) w1)))))"

subsection \<open>close\<close>

text \<open>\<^verbatim>\<open>consumer_close\<close>: the record queue is destroyed, the native consumer is closed (the
  function returns at once when that fails), then the event queue and the topic list are
  destroyed and the struct is freed.  The configuration and the client itself are never
  destroyed (both calls are commented out in the source).\<close>

definition destroy_queue :: "nat option \<Rightarrow> world \<Rightarrow> world" where
  "destroy_queue q w = (case q of None \<Rightarrow> w | Some i \<Rightarrow> call (Queue_destroy i) w)"

definition free :: "nat \<Rightarrow> world \<Rightarrow> world" where
  "free a w = call (Free a) (w\<lparr>heap := (heap w)(a := None)\<rparr>)"

definition consumer_close :: "librdkafka \<Rightarrow> nat \<Rightarrow> world \<Rightarrow> failure + (int \<times> world)" where
  "consumer_close K a w =
     (case deref w a of
        Inl e \<Rightarrow> Inl e
      | Inr consumer \<Rightarrow>
         (let w1 = destroy_queue (rd_msg_queue consumer) w;
              err = (case rd_consumer consumer of None \<Rightarrow> 0 | Some r \<Rightarrow> consumer_close_result K);
              w2 = (case rd_consumer consumer of None \<Rightarrow> w1 | Some r \<Rightarrow> call (Kafka_consumer_close r) w1)
          in if err \<noteq> 0 then Inr (err, w2)
             else
               (let w3 = destroy_queue (rd_event_queue consumer) w2;
                    w4 = (case topics consumer of
                            None \<Rightarrow> w3
                          | Some tps \<Rightarrow> call Topic_partition_list_destroy w3)
                in Inr (err, free a w4))))"

text \<open>\<^verbatim>\<open>lua_consumer_close\<close> leaves the pointer in the userdata as it is.\<close>

definition lua_consumer_close ::
    "librdkafka \<Rightarrow> lua_value list \<Rightarrow> world \<Rightarrow> failure + (lua_value list \<times> world)" where
  "lua_consumer_close K args w =
     (case args of
        LConsumer None # _ \<Rightarrow> Inr ([LBool False], w)
      | LConsumer (Some a) # _ \<Rightarrow>
         (case consumer_close K a w of
            Inl e \<Rightarrow> Inl e
          | Inr (err, w1) \<Rightarrow>
              if err \<noteq> 0
              then (case push_err_str K err of Inl e \<Rightarrow> Inl e | Inr s \<Rightarrow> Inr ([LBool True, s], w1))
              else Inr ([LBool True], w1))
      | _ \<Rightarrow> Inl (Raise ''bad argument''))"

text \<open>\<^verbatim>\<open>lua_consumer_gc\<close>, the finalizer: closes a non-null pointer, ignores the result and
  resets the pointer; the first component of the result is the userdata after the call.\<close>

definition lua_consumer_gc ::
    "librdkafka \<Rightarrow> lua_value list \<Rightarrow> world \<Rightarrow> failure + (lua_value \<times> world)" where
  "lua_consumer_gc K args w =
     (case args of
        LConsumer None # _ \<Rightarrow> Inr (LConsumer None, w)
      | LConsumer (Some a) # _ \<Rightarrow>
         (case consumer_close K a w of
            Inl e \<Rightarrow> Inl e
          | Inr (err, w1) \<Rightarrow> Inr (LConsumer None, w1))
      | _ \<Rightarrow> Inl (Raise ''bad argument''))"

subsection \<open>create_consumer\<close>

definition brokers_msg :: string where
  "brokers_msg = ''consumer config table must have non nil key 'brokers' which contains string''"

definition options_msg :: string where
  "options_msg = ''consumer config options must contains only string keys and string values''"

definition invalid_key :: string where
  "invalid_key = ''invalid key to '' @ [CHR 0x27] @ ''next'' @ [CHR 0x27]"

text \<open>How the loop over \<^verbatim>\<open>options\<close> ends: it runs to the end of the table, or the function
  returns from inside it with the values pushed, or the runtime raises.\<close>

datatype loop_result =
    Completed world
  | Returned "lua_value list" world
  | Failed failure

text \<open>
  The \<^verbatim>\<open>lua_next\<close> loop over \<^verbatim>\<open>options\<close>; \<open>tbl\<close> is the whole table, \<open>rest\<close> the entries not
  yet visited, \<open>conf\<close> the native configuration.  \<^verbatim>\<open>lua_tostring(L, -2)\<close> is applied to the
  key itself: a number key is turned into a string in place, and the following
  \<^verbatim>\<open>lua_next\<close> continues from wherever that string is a key of the table, or raises when
  it is none.  The loop therefore need not terminate, and the result is optional.
\<close>

partial_function (option) options_loop ::
    "librdkafka \<Rightarrow> nat \<Rightarrow> (lua_value \<times> lua_value) list \<Rightarrow> (lua_value \<times> lua_value) list
      \<Rightarrow> world \<Rightarrow> loop_result option" where
  "options_loop K conf tbl rest w =
     (case rest of
        [] \<Rightarrow> Some (Completed w)
      | entry # rest' \<Rightarrow>
          if \<not> lua_isstring (snd entry) \<or> \<not> lua_isstring (fst entry)
          then Some (Returned [LNil, safe_pushstring options_msg] w)
          else
            (case (lua_tostring (snd entry), lua_tostring (fst entry)) of
               (Some val, Some ky) \<Rightarrow>
                 (case conf_set_result K ky val of
                    Some errstr \<Rightarrow>
                      Some (Returned [LNil, safe_pushstring errstr] (call (Conf_set conf ky val) w))
                  | None \<Rightarrow>
                     (case fst entry of
                        LString _ \<Rightarrow> options_loop K conf tbl rest' (call (Conf_set conf ky val) w)
                      | _ \<Rightarrow>
                         (case entries_after (LString ky) tbl of
                            None \<Rightarrow> Some (Failed (Raise invalid_key))
                          | Some rest'' \<Rightarrow>
                              options_loop K conf tbl rest'' (call (Conf_set conf ky val) w))))
             | _ \<Rightarrow> Some (Failed (Crash NullDeref))))"

text \<open>The rest of \<^verbatim>\<open>lua_create_consumer\<close> after the loop: the native client, the brokers,
  the two queues, the struct and its userdata.  No error path releases what was created
  before it.  (The text of \<open>brokers\<close> is taken to stay alive after its value is popped,
  and \<^verbatim>\<open>malloc\<close> to succeed.)\<close>

definition new_consumer ::
    "librdkafka \<Rightarrow> nat \<Rightarrow> string \<Rightarrow> world \<Rightarrow> failure + (lua_value list \<times> world)" where
  "new_consumer K conf brokers w =
     (case kafka_new_result K of
        Some errstr \<Rightarrow> Inr ([LNil, safe_pushstring errstr], call (Kafka_new conf None) w)
      | None \<Rightarrow>
         (case fresh w of (rk, w1) \<Rightarrow>
            (let w2 = call (Brokers_add rk brokers) (call (Kafka_new conf (Some rk)) w1)
             in if brokers_add_result K brokers = 0
                then Inr ([LNil, safe_pushstring ''No valid brokers specified''], w2)
                else
                  (case fresh w2 of (evq, w3) \<Rightarrow>
                   case fresh (call (Queue_get_main rk evq) w3) of (msgq, w4) \<Rightarrow>
                   case fresh (call (Queue_get_consumer rk msgq) w4) of (a, w5) \<Rightarrow>
                     Inr ([LConsumer (Some a)],
                          (call (Malloc a) w5)
                            \<lparr>heap := (heap w5)(a \<mapsto>
                               \<lparr>rd_config = Some conf, rd_consumer = Some rk, topics = None,
                                rd_event_queue = Some evq, rd_msg_queue = Some msgq\<rparr>)\<rparr>)))))"

definition lua_create_consumer ::
    "librdkafka \<Rightarrow> lua_value list \<Rightarrow> world \<Rightarrow> (failure + (lua_value list \<times> world)) option" where
  "lua_create_consumer K args w =
     (case args of
        [LTable conf_tbl] \<Rightarrow>
          (case lua_tostring (lua_gettable conf_tbl (LString ''brokers'')) of
             None \<Rightarrow> Some (Inr ([LNil, safe_pushstring brokers_msg], w))
           | Some brokers \<Rightarrow>
              (case fresh w of (conf, w1) \<Rightarrow>
               case fresh (call (Conf_new conf) w1) of (topic_conf, w2) \<Rightarrow>
                 (let w3 = call (Conf_set_default_topic_conf conf topic_conf)
                             (call (Topic_conf_new topic_conf) w2)
                  in case lua_gettable conf_tbl (LString ''options'') of
                       LTable opts \<Rightarrow>
                         (case options_loop K conf opts opts w3 of
                            None \<Rightarrow> None
                          | Some (Failed e) \<Rightarrow> Some (Inl e)
                          | Some (Returned rets w4) \<Rightarrow> Some (Inr (rets, w4))
                          | Some (Completed w4) \<Rightarrow> Some (new_consumer K conf brokers w4))
                     | _ \<Rightarrow> Some (new_consumer K conf brokers w3))))
      | _ \<Rightarrow> Some (Inl (Raise ''Usage: create_consumer(conf)'')))"

section \<open>The Lua facade \<^verbatim>\<open>Consumer\<close>\<close>

text \<open>The host's bounded channel (\<^verbatim>\<open>fiber.channel(n)\<close>): a put on a closed channel returns
  false, a put on a full one suspends the caller (\<open>None\<close>), any other put appends.\<close>

record channel =
  capacity :: nat
  items :: "lua_value list"
  closed :: bool

definition channel_put :: "channel \<Rightarrow> lua_value \<Rightarrow> (channel \<times> bool) option" where
  "channel_put ch v =
     (if closed ch then Some (ch, False)
      else if length (items ch) < capacity ch then Some (ch\<lparr>items := items ch @ [v]\<rparr>, True)
      else None)"

text \<open>The facade object; \<open>consumer_ud\<close> is the field \<^verbatim>\<open>_consumer\<close>, \<open>output_ch\<close> is
  \<^verbatim>\<open>_output_ch\<close>, and the two fibers are \<^verbatim>\<open>_poll_fiber\<close> and \<^verbatim>\<open>_poll_msg_fiber\<close>.\<close>

record facade =
  config :: lua_value
  consumer_ud :: lua_value
  output_ch :: channel
  poll_fiber :: loop
  poll_msg_fiber :: loop

definition index_nil :: string where
  "index_nil = ''attempt to index field '_consumer' (a nil value)''"

text \<open>\<^verbatim>\<open>Consumer.create(config)\<close>: the pair of values it returns, the facade being \<open>None\<close> for
  nil.\<close>

definition Consumer_create ::
    "librdkafka \<Rightarrow> lua_value \<Rightarrow> world \<Rightarrow> (failure + ((facade option \<times> lua_value) \<times> world)) option" where
  "Consumer_create K cfg w =
     (if cfg = LNil then Some (Inr ((None, LString ''config must not be nil''), w))
      else case lua_create_consumer K [cfg] w of
        None \<Rightarrow> None
      | Some (Inl e) \<Rightarrow> Some (Inl e)
      | Some (Inr (rets, w1)) \<Rightarrow>
          if ret rets 1 \<noteq> LNil then Some (Inr ((None, ret rets 1), w1))
          else Some (Inr ((Some \<lparr>config = cfg, consumer_ud = ret rets 0,
                                  output_ch = \<lparr>capacity = 10000, items = [], closed = False\<rparr>,
                                  poll_fiber = Loop_poll, poll_msg_fiber = Loop_poll_msg\<rparr>, LNil),
                          effect [Channel_new 10000, Fiber_create Loop_poll, Fiber_create Loop_poll_msg] w1)))"

text \<open>One iteration of the loop of \<^verbatim>\<open>Consumer:_poll_msg\<close>.  The loop leaves the iteration
  only by an error or by suspending on a full channel.\<close>

datatype loop_exit = Error failure | Suspended_on_put lua_value

definition poll_msg_iteration :: "facade \<Rightarrow> world \<Rightarrow> loop_exit + (facade \<times> world)" where
  "poll_msg_iteration self w =
     (case consumer_ud self of
        LConsumer p \<Rightarrow>
          (case lua_consumer_poll_msg [LConsumer p] w of
             Inl e \<Rightarrow> Inl (Error e)
           | Inr (rets, w1) \<Rightarrow>
               if ret rets 1 \<noteq> LNil
               then Inr (self, effect [Log_error (ret rets 1), Sleep_ms 10] w1)
               else if ret rets 0 \<noteq> LNil
               then (case channel_put (output_ch self) (ret rets 0) of
                       None \<Rightarrow> Inl (Suspended_on_put (ret rets 0))
                     | Some (ch, ok) \<Rightarrow>
                         Inr (self\<lparr>output_ch := ch\<rparr>, effect [Channel_put (ret rets 0), Yield] w1))
               else Inr (self, effect [Sleep_ms 10] w1))
      | _ \<Rightarrow> Inl (Error (Raise index_nil)))"

text \<open>\<^verbatim>\<open>Consumer:_poll_msg\<close> never returns; \<open>Consumer_poll_msg n\<close> is the state after its first
  \<open>n\<close> iterations.\<close>

fun Consumer_poll_msg :: "nat \<Rightarrow> facade \<Rightarrow> world \<Rightarrow> loop_exit + (facade \<times> world)" where
  "Consumer_poll_msg 0 self w = Inr (self, w)"
| "Consumer_poll_msg (Suc n) self w =
     (case poll_msg_iteration self w of
        Inl e \<Rightarrow> Inl e
      | Inr (self', w') \<Rightarrow> Consumer_poll_msg n self' w')"

text \<open>\<^verbatim>\<open>Consumer:close()\<close> cancels both fibers, closes the channel, closes the userdata in
  \<^verbatim>\<open>_consumer\<close>, sets that field to nil and returns the second value of the native close.
  The host calls are taken never to raise, also on a fiber already cancelled and a channel
  already closed.\<close>

definition Consumer_close ::
    "librdkafka \<Rightarrow> facade \<Rightarrow> world \<Rightarrow> failure + (lua_value \<times> facade \<times> world)" where
  "Consumer_close K self w =
     (let w1 = effect [Fiber_cancel (poll_msg_fiber self), Fiber_cancel (poll_fiber self),
                       Channel_close] w;
          self1 = self\<lparr>output_ch := (output_ch self)\<lparr>closed := True\<rparr>\<rparr>
      in case consumer_ud self1 of
           LConsumer p \<Rightarrow>
             (case lua_consumer_close K [LConsumer p] w1 of
                Inl e \<Rightarrow> Inl e
              | Inr (rets, w2) \<Rightarrow> Inr (ret rets 1, self1\<lparr>consumer_ud := LNil\<rparr>, w2))
         | _ \<Rightarrow> Inl (Raise index_nil))"

definition Consumer_subscribe ::
    "librdkafka \<Rightarrow> facade \<Rightarrow> lua_value \<Rightarrow> world \<Rightarrow> failure + (lua_value list \<times> world)" where
  "Consumer_subscribe K self tps w =
     (case consumer_ud self of
        LConsumer p \<Rightarrow> lua_consumer_subscribe K [LConsumer p, tps] w
      | _ \<Rightarrow> Inl (Raise index_nil))"

definition Consumer_store_offset ::
    "librdkafka \<Rightarrow> facade \<Rightarrow> lua_value \<Rightarrow> world \<Rightarrow> failure + (lua_value list \<times> world)" where
  "Consumer_store_offset K self message w =
     (case consumer_ud self of
        LConsumer p \<Rightarrow> lua_consumer_store_offset K [LConsumer p, message] w
      | _ \<Rightarrow> Inl (Raise index_nil))"

section \<open>Concrete inputs\<close>

text \<open>The record of the round-trip scenario, a record without key and value, and an event
  carrying one record.\<close>

definition order_record :: rd_message where
  "order_record = \<lparr>rkt = ''orders'', partition = 0, payload = Some ''v1'', len = 2,
                    key = Some ''k1'', key_len = 2, offset = 42\<rparr>"

text \<open>The same record lying inside a larger receive buffer: the key is followed by the
  value, the value by further bytes of the buffer.\<close>

definition buffered_record :: rd_message where
  "buffered_record = order_record\<lparr>key := Some ''k1v1'', payload := Some ''v1;;''\<rparr>"

definition absent_record :: rd_message where
  "absent_record = \<lparr>rkt = ''orders'', partition = 3, payload = None, len = 0,
                     key = None, key_len = 0, offset = 99\<rparr>"

definition fetch_event :: "nat \<Rightarrow> rd_message list \<Rightarrow> rd_event" where
  "fetch_event i ms = \<lparr>ev_id = i, ev_type = RD_KAFKA_EVENT_FETCH, ev_name = ''Fetch'', ev_msgs = ms\<rparr>"

text \<open>The userdata of a live handle on record \<open>m\<close> drawn from event \<open>e\<close>.\<close>

definition handle :: "rd_message \<Rightarrow> rd_event \<Rightarrow> lua_value" where
  "handle m e = LMessage (Some \<lparr>rd_message = Some m, rd_event = e\<rparr>)"

text \<open>A native client whose calls all succeed, and one whose calls answering with an error
  code all answer \<open>code\<close>.\<close>

definition stub_ok :: librdkafka where
  "stub_ok = \<lparr>conf_set_result = (\<lambda>k v. None), kafka_new_result = None,
               brokers_add_result = (\<lambda>b. 1), subscribe_result = (\<lambda>tps. 0),
               offset_store_result = (\<lambda>t p off. 0), consumer_close_result = 0,
               err2str = (\<lambda>e. ''Success'')\<rparr>"

definition stub_err :: "int \<Rightarrow> librdkafka" where
  "stub_err code = \<lparr>conf_set_result = (\<lambda>k v. None), kafka_new_result = None,
               brokers_add_result = (\<lambda>b. 1), subscribe_result = (\<lambda>tps. code),
               offset_store_result = (\<lambda>t p off. code), consumer_close_result = code,
               err2str = (\<lambda>e. ''Local: Bad message format'')\<rparr>"

definition world0 :: world where
  "world0 = \<lparr>calls = [], heap = (\<lambda>a. None), next_id = 1, poll_script = [],
              stored = (\<lambda>tp. None), host = []\<rparr>"

definition consumer0 :: consumer_t where
  "consumer0 = \<lparr>rd_config = Some 1, rd_consumer = Some 3, topics = None,
                 rd_event_queue = Some 4, rd_msg_queue = Some 5\<rparr>"

text \<open>The state after a consumer was created for \<open>config0\<close> in \<open>world0\<close>, the facade
  built on it, and the state after that facade is closed.\<close>

definition config0 :: lua_value where
  "config0 = LTable [(LString ''brokers'', LString ''localhost:9092'')]"

definition world1 :: world where
  "world1 = \<lparr>calls = [Conf_new 1, Topic_conf_new 2, Conf_set_default_topic_conf 1 2,
                Kafka_new 1 (Some 3), Brokers_add 3 ''localhost:9092'',
                Queue_get_main 3 4, Queue_get_consumer 3 5, Malloc 6],
              heap = (\<lambda>a. None)(6 \<mapsto> consumer0), next_id = 7, poll_script = [],
              stored = (\<lambda>tp. None), host = []\<rparr>"

definition facade0 :: facade where
  "facade0 = \<lparr>config = config0, consumer_ud = LConsumer (Some 6),
               output_ch = \<lparr>capacity = 10000, items = [], closed = False\<rparr>,
               poll_fiber = Loop_poll, poll_msg_fiber = Loop_poll_msg\<rparr>"

definition spawned :: "host_effect list" where
  "spawned = [Channel_new 10000, Fiber_create Loop_poll, Fiber_create Loop_poll_msg]"

definition cancelled :: "host_effect list" where
  "cancelled = [Fiber_cancel Loop_poll_msg, Fiber_cancel Loop_poll, Channel_close]"

definition teardown :: "native_call list" where
  "teardown = [Queue_destroy 5, Kafka_consumer_close 3, Queue_destroy 4, Free 6]"

definition facade_closed :: facade where
  "facade_closed = facade0\<lparr>output_ch := (output_ch facade0)\<lparr>closed := True\<rparr>, consumer_ud := LNil\<rparr>"

definition world_closed :: world where
  "world_closed = world1\<lparr>calls := calls world1 @ teardown, heap := (\<lambda>a. None),
                         host := spawned @ cancelled\<rparr>"

definition world_subscribed :: world where
  "world_subscribed = set_topics 6 [(''t1'', -1)] world1"

text \<open>Configurations with an option that is not a string, with numbers in the place of
  strings, and with a valid option ahead of an invalid one.\<close>

definition bad_options_config :: lua_value where
  "bad_options_config = LTable [(LString ''brokers'', LString ''localhost:9092''),
      (LString ''options'', LTable [(LString ''enable.auto.commit'', LBool False)])]"

definition numeric_config :: lua_value where
  "numeric_config = LTable [(LString ''brokers'', LNumber 9092),
      (LString ''options'', LTable [(LString ''fetch.min.bytes'', LNumber 1)])]"

definition number_key_config :: lua_value where
  "number_key_config = LTable [(LString ''brokers'', LString ''localhost:9092''),
      (LString ''options'', LTable [(LNumber 1, LString ''group.id'')])]"

definition guarded_config :: "(lua_value \<times> lua_value) list" where
  "guarded_config = [(LString ''brokers'', LString ''localhost:9092''),
      (LString ''options'', LTable [(LString ''group.id'', LString ''test_consumer''),
                                    (LString ''enable.auto.commit'', LBool False)])]"

definition world_leak :: world where
  "world_leak = world0\<lparr>calls := [Conf_new 1, Topic_conf_new 2, Conf_set_default_topic_conf 1 2],
                        next_id := 3\<rparr>"

section \<open>Vocabulary of the statements\<close>

text \<open>The values a call returned, when it returned.\<close>

definition returned_values :: "(failure + (lua_value list \<times> world)) option \<Rightarrow> lua_value list option" where
  "returned_values r = (case r of Some (Inr (rets, w)) \<Rightarrow> Some rets | _ \<Rightarrow> None)"

text \<open>A table of topic names under arbitrary keys, the entries a subscribe call appends
  for it and the native calls it makes for them; the list a consumer holds before the
  call and the allocation the call makes when there is none.\<close>

definition string_table :: "(lua_value \<times> string) list \<Rightarrow> (lua_value \<times> lua_value) list" where
  "string_table kts = map (\<lambda>(k, t). (k, LString t)) kts"

definition topic_entries :: "(lua_value \<times> string) list \<Rightarrow> (string \<times> int) list" where
  "topic_entries kts = map (\<lambda>(k, t). (cstr t, -1)) kts"

definition add_calls :: "(lua_value \<times> string) list \<Rightarrow> native_call list" where
  "add_calls kts = map (\<lambda>(k, t). Topic_partition_list_add (cstr t) (-1)) kts"

definition previous_topics :: "consumer_t \<Rightarrow> (string \<times> int) list" where
  "previous_topics c = (case topics c of None \<Rightarrow> [] | Some tps \<Rightarrow> tps)"

definition list_allocation :: "consumer_t \<Rightarrow> native_call list" where
  "list_allocation c = (case topics c of None \<Rightarrow> [Topic_partition_list_new] | Some tps \<Rightarrow> [])"

definition subscribe_reply :: "librdkafka \<Rightarrow> (string \<times> int) list \<Rightarrow> lua_value list" where
  "subscribe_reply K tps =
     (if subscribe_result K tps = 0 then []
      else [LString (cstr (err2str K (subscribe_result K tps)))])"

text \<open>What one answer of the record queue makes the drain loop do: the handle it puts on
  the channel, the host effects, the native calls.\<close>

fun delivered :: "rd_event option \<Rightarrow> lua_value list" where
  "delivered None = []"
| "delivered (Some e) = (if ev_type e = RD_KAFKA_EVENT_FETCH then [message_handle e] else [])"

fun poll_effects :: "rd_event option \<Rightarrow> host_effect list" where
  "poll_effects None = [Sleep_ms 10]"
| "poll_effects (Some e) =
     (if ev_type e = RD_KAFKA_EVENT_FETCH then [Channel_put (message_handle e), Yield]
      else [Log_error (LString (unexpected_event e)), Sleep_ms 10])"

fun poll_calls :: "nat \<Rightarrow> rd_event option \<Rightarrow> native_call list" where
  "poll_calls q None = [Queue_poll q]"
| "poll_calls q (Some e) =
     (if ev_type e = RD_KAFKA_EVENT_FETCH then [Queue_poll q]
      else [Queue_poll q, Event_destroy (ev_id e)])"

definition drain_state ::
    "nat \<Rightarrow> rd_event option list \<Rightarrow> rd_event option list \<Rightarrow> facade \<times> world \<Rightarrow> facade \<times> world" where
  "drain_state q script later sw =
     (case sw of (self, w) \<Rightarrow>
        (self\<lparr>output_ch := (output_ch self)
                 \<lparr>items := items (output_ch self) @ concat (map delivered script)\<rparr>\<rparr>,
         w\<lparr>calls := calls w @ concat (map (poll_calls q) script),
           poll_script := later,
           host := host w @ concat (map poll_effects script)\<rparr>))"

text \<open>The answers of a stub client that has either no data or one fetched record.\<close>

datatype poll_answer = No_data | One_record nat rd_message

fun answer :: "poll_answer \<Rightarrow> rd_event option" where
  "answer No_data = None"
| "answer (One_record i m) = Some (fetch_event i [m])"

fun forwarded :: "poll_answer \<Rightarrow> lua_value list" where
  "forwarded No_data = []"
| "forwarded (One_record i m) = [handle m (fetch_event i [m])]"

fun loop_effects :: "poll_answer \<Rightarrow> host_effect list" where
  "loop_effects No_data = [Sleep_ms 10]"
| "loop_effects (One_record i m) = [Channel_put (handle m (fetch_event i [m])), Yield]"

definition alternating_answers :: "poll_answer list" where
  "alternating_answers =
     [No_data, One_record 10 order_record, No_data, One_record 11 absent_record]"

text \<open>An option entry the loop passes over: a string key with a string or number value
  that the native configuration accepts; and the native call made for an entry.\<close>

fun accepted_entry :: "librdkafka \<Rightarrow> lua_value \<times> lua_value \<Rightarrow> bool" where
  "accepted_entry K (LString k, v) =
     (case lua_tostring v of None \<Rightarrow> False | Some val \<Rightarrow> conf_set_result K (cstr k) val = None)"
| "accepted_entry K _ = False"

fun conf_set_call :: "nat \<Rightarrow> lua_value \<times> lua_value \<Rightarrow> native_call list" where
  "conf_set_call conf (k, v) =
     (case (lua_tostring k, lua_tostring v) of
        (Some ky, Some val) \<Rightarrow> [Conf_set conf ky val]
      | _ \<Rightarrow> [])"

fun result_host :: "loop_result \<Rightarrow> host_effect list option" where
  "result_host (Completed w) = Some (host w)"
| "result_host (Returned rets w) = Some (host w)"
| "result_host (Failed e) = None"

section \<open>Properties of the message accessors\<close>

lemma with_message_handle: "with_message (handle m e # rest) f = f m"
  by (simp add: with_message_def lua_check_consumer_msg_def handle_def)

lemma show_int_42: "show_int 42 = ''42''"
  by (simp add: show_int_def digits.simps digit_char_def)

lemma show_int_0: "show_int 0 = ''0''"
  by (simp add: show_int_def digits.simps digit_char_def)

text \<open>
  Claim C5.  On a live handle, \<open>key()\<close> returns no value at all (an empty list of results,
  which is not the empty string) when the key length is zero or the key pointer is null,
  and likewise \<open>value()\<close> for the payload; when the pointer is not null, the length is
  positive and that many bytes are readable at the pointer, the accessor returns exactly
  the first \<open>key_len\<close> (respectively \<open>len\<close>) bytes, a string of exactly that length.
\<close>

theorem key_value_absent_or_exact:
  "(key_len m \<le> 0 \<or> key m = None \<longrightarrow>
      lua_consumer_msg_key [handle m e] = Inr []
      \<and> lua_consumer_msg_key [handle m e] \<noteq> Inr [LString []])
   \<and> (len m \<le> 0 \<or> payload m = None \<longrightarrow>
      lua_consumer_msg_value [handle m e] = Inr []
      \<and> lua_consumer_msg_value [handle m e] \<noteq> Inr [LString []])
   \<and> (\<forall>bs. 0 < key_len m \<and> key m = Some bs \<and> key_len m \<le> length bs \<longrightarrow>
        lua_consumer_msg_key [handle m e] = Inr [LString (take (key_len m) bs)]
        \<and> length (take (key_len m) bs) = key_len m)
   \<and> (\<forall>bs. 0 < len m \<and> payload m = Some bs \<and> len m \<le> length bs \<longrightarrow>
        lua_consumer_msg_value [handle m e] = Inr [LString (take (len m) bs)]
        \<and> length (take (len m) bs) = len m)"
  by (auto simp: lua_consumer_msg_key_def lua_consumer_msg_value_def with_message_handle
      push_bytes_def split: option.splits)

theorem key_value_absent_or_exact_witness:
  "lua_consumer_msg_key [handle absent_record (fetch_event 7 [absent_record])] = Inr []
   \<and> lua_consumer_msg_value [handle absent_record (fetch_event 7 [absent_record])] = Inr []
   \<and> lua_consumer_msg_key [handle order_record (fetch_event 8 [order_record])]
       = Inr [LString ''k1'']
   \<and> lua_consumer_msg_value [handle order_record (fetch_event 8 [order_record])]
       = Inr [LString ''v1'']"
  using key_value_absent_or_exact [of absent_record "fetch_event 7 [absent_record]"]
        key_value_absent_or_exact [of order_record "fetch_event 8 [order_record]"]
  by (simp add: absent_record_def order_record_def)

text \<open>
  Claim C6, evaluated.  For the record with key \<open>k1\<close>, value \<open>v1\<close>, topic \<open>orders\<close>,
  partition 0 and offset 42, whose key and value are readable for exactly their two
  bytes, the five accessors return these five values, but the debug string is not
  produced: \<^verbatim>\<open>strncpy\<close> is given the count \<open>key_len + 1\<close> and reads the byte past the key.
  When the same record lies inside a larger buffer, the debug string is the fixed format
  filled with the five values, and with the key (respectively the value) absent it
  carries the literal \<open>NULL\<close> in its place.
\<close>

theorem tostring_reads_past_key:
  "lua_consumer_msg_topic [handle order_record e] = Inr [LString ''orders'']
   \<and> lua_consumer_msg_partition [handle order_record e] = Inr [LNumber 0]
   \<and> lua_consumer_msg_offset [handle order_record e] = Inr [LInt64 42]
   \<and> lua_consumer_msg_key [handle order_record e] = Inr [LString ''k1'']
   \<and> lua_consumer_msg_value [handle order_record e] = Inr [LString ''v1'']
   \<and> lua_consumer_msg_tostring [handle order_record e] = Inl (Crash OutOfBounds)
   \<and> lua_consumer_msg_tostring [handle buffered_record e] =
       Inr [LString ''Kafka Consumer Message: topic=orders partition=0 offset=42 key=k1 value=v1'']
   \<and> lua_consumer_msg_tostring [handle (buffered_record\<lparr>key := None, key_len := 0\<rparr>) e] =
       Inr [LString ''Kafka Consumer Message: topic=orders partition=0 offset=42 key=NULL value=v1'']
   \<and> lua_consumer_msg_tostring [handle (buffered_record\<lparr>payload := None, len := 0\<rparr>) e] =
       Inr [LString ''Kafka Consumer Message: topic=orders partition=0 offset=42 key=k1 value=NULL'']"
  by (simp add: lua_consumer_msg_topic_def lua_consumer_msg_partition_def
      lua_consumer_msg_offset_def lua_consumer_msg_key_def lua_consumer_msg_value_def
      lua_consumer_msg_tostring_def with_message_handle order_record_def buffered_record_def
      push_bytes_def field_text_def strncpy_readable_def strcpy_into_def safe_pushstring_def
      sizeof_pointer_def cstr_def NUL_def show_int_42 show_int_0)

section \<open>Properties of store_offset\<close>

lemma check_msg_second: "lua_check_consumer_msg [c, LMessage (Some msg)] 2 = Inr msg"
  by (simp add: lua_check_consumer_msg_def)

lemma push_err_str_fits:
  "length (cstr (err2str K code)) < 512
    \<Longrightarrow> push_err_str K code = Inr (LString (cstr (err2str K code)))"
  by (simp add: push_err_str_def strcpy_into_def safe_pushstring_def cstr_def)

text \<open>
  Claim C8.  For a live handle on a record with topic \<open>t\<close>, partition \<open>p\<close> and offset
  \<open>o\<close>, and a native client whose error texts fit the 512-byte buffer, store_offset
  returns, and its one native call is the offset-store primitive with exactly
  \<open>(t, p, o)\<close>.  When the native call reports no error, nothing is returned and the
  offset stored for \<open>(t, p)\<close> is \<open>o\<close>; when it reports an error, the text of that error is
  returned and the stored offsets are unchanged.
\<close>

theorem store_offset_native_call:
  assumes live: "rd_message msg = Some m"
    and fits: "\<forall>code. length (cstr (err2str K code)) < 512"
  shows "\<exists>rets w'.
      lua_consumer_store_offset K [c, LMessage (Some msg)] w = Inr (rets, w')
    \<and> calls w' = calls w @ [Offset_store (rkt m) (partition m) (offset m)]
    \<and> (offset_store_result K (rkt m) (partition m) (offset m) = 0 \<longrightarrow>
          rets = [] \<and> stored w' (rkt m, partition m) = Some (offset m))
    \<and> (offset_store_result K (rkt m) (partition m) (offset m) \<noteq> 0 \<longrightarrow>
          rets = [LString (cstr (err2str K
                    (offset_store_result K (rkt m) (partition m) (offset m))))]
          \<and> stored w' = stored w)"
proof (cases "offset_store_result K (rkt m) (partition m) (offset m) = 0")
  case True
  then show ?thesis
    using live
    by (simp add: lua_consumer_store_offset_def check_msg_second rd_kafka_offset_store_def
        call_def)
next
  case False
  have "length (cstr (err2str K (offset_store_result K (rkt m) (partition m) (offset m)))) < 512"
    using fits by blast
  then have "push_err_str K (offset_store_result K (rkt m) (partition m) (offset m))
      = Inr (LString (cstr (err2str K (offset_store_result K (rkt m) (partition m) (offset m)))))"
    by (rule push_err_str_fits)
  with False live show ?thesis
    by (simp add: lua_consumer_store_offset_def check_msg_second rd_kafka_offset_store_def
        call_def)
qed

theorem store_offset_native_call_witness:
  "(\<exists>w'. lua_consumer_store_offset stub_ok
        [LConsumer (Some 6), handle absent_record (fetch_event 7 [absent_record])] world0
          = Inr ([], w')
      \<and> calls w' = [Offset_store ''orders'' 3 99]
      \<and> stored w' (''orders'', 3) = Some 99)
   \<and> (\<exists>w'. lua_consumer_store_offset (stub_err (-190))
        [LConsumer (Some 6), handle absent_record (fetch_event 7 [absent_record])] world0
          = Inr ([LString ''Local: Bad message format''], w')
      \<and> calls w' = [Offset_store ''orders'' 3 99]
      \<and> stored w' = stored world0)"
proof -
  have f1: "\<forall>code. length (cstr (err2str stub_ok code)) < 512"
    by (simp add: stub_ok_def cstr_def NUL_def)
  have f2: "\<forall>code. length (cstr (err2str (stub_err (-190)) code)) < 512"
    by (simp add: stub_err_def cstr_def NUL_def)
  have l: "rd_message \<lparr>rd_message = Some absent_record,
                        rd_event = fetch_event 7 [absent_record]\<rparr> = Some absent_record"
    by simp
  show ?thesis
    using store_offset_native_call [OF l f1, of "LConsumer (Some 6)" world0]
      store_offset_native_call [OF l f2, of "LConsumer (Some 6)" world0]
    by (simp add: handle_def absent_record_def stub_ok_def stub_err_def world0_def cstr_def
        NUL_def)
qed

section \<open>Properties of subscribe\<close>

lemma subscribe_loop_strings:
  "subscribe_loop (string_table kts) tps w
     = Inr (tps @ topic_entries kts, w\<lparr>calls := calls w @ add_calls kts\<rparr>)"
proof (induction kts arbitrary: tps w)
  case Nil
  then show ?case by (simp add: string_table_def topic_entries_def add_calls_def)
next
  case (Cons kt kts)
  obtain k t where kt: "kt = (k, t)" by (cases kt)
  have "subscribe_loop (string_table (kt # kts)) tps w
      = subscribe_loop (string_table kts) (tps @ [(cstr t, -1)])
          (call (Topic_partition_list_add (cstr t) (-1)) w)"
    by (simp add: kt string_table_def)
  also have "\<dots> = Inr ((tps @ [(cstr t, -1)]) @ topic_entries kts,
      (call (Topic_partition_list_add (cstr t) (-1)) w)
        \<lparr>calls := calls (call (Topic_partition_list_add (cstr t) (-1)) w) @ add_calls kts\<rparr>)"
    by (rule Cons.IH)
  finally show ?case
    by (simp add: kt topic_entries_def add_calls_def call_def)
qed

lemma subscribe_once:
  assumes c: "heap w a = Some c" and r: "rd_consumer c = Some r"
    and fits: "\<forall>code. length (cstr (err2str K code)) < 512"
  shows "lua_consumer_subscribe K [LConsumer (Some a), LTable (string_table kts)] w
     = Inr (subscribe_reply K (previous_topics c @ topic_entries kts),
            w\<lparr>calls := calls w @ list_allocation c @ add_calls kts
                  @ [Subscribe r (previous_topics c @ topic_entries kts)],
               heap := (heap w)(a \<mapsto> c\<lparr>topics := Some (previous_topics c @ topic_entries kts)\<rparr>)\<rparr>)"
  using c r fits
  by (cases "topics c")
     (simp_all add: lua_consumer_subscribe_def lua_check_consumer_def deref_def
        subscribe_loop_strings set_topics_def call_def subscribe_reply_def push_err_str_fits
        previous_topics_def list_allocation_def)

lemma subscribe_appends:
  assumes c: "heap w a = Some c" and r: "rd_consumer c = Some r"
    and fits: "\<forall>code. length (cstr (err2str K code)) < 512"
  shows "\<exists>rets w'.
      lua_consumer_subscribe K [LConsumer (Some a), LTable (string_table kts)] w = Inr (rets, w')
    \<and> heap w' a = Some (c\<lparr>topics := Some (previous_topics c @ topic_entries kts)\<rparr>)
    \<and> calls w' = calls w @ list_allocation c @ add_calls kts
                  @ [Subscribe r (previous_topics c @ topic_entries kts)]"
  by (simp add: subscribe_once [OF c r fits])

text \<open>
  Claim C3.  For every consumer (whatever list it already holds) and every native client
  whose error texts fit the buffer, \<open>subscribe({t1})\<close> followed by \<open>subscribe({t2})\<close>
  both return, whether or not the native call reports an error, and leave in the struct
  the previous list extended by \<open>t1\<close> and then \<open>t2\<close>.  The list is allocated by the first
  call only if the consumer had none, and the second native subscribe call is made with
  the combined list.
\<close>

theorem subscribe_accumulates:
  assumes c: "heap w a = Some c" and r: "rd_consumer c = Some r"
    and fits: "\<forall>code. length (cstr (err2str K code)) < 512"
  shows "\<exists>r1 w1 r2 w2 c2.
      lua_consumer_subscribe K [LConsumer (Some a), LTable [(LNumber 1, LString t1)]] w
        = Inr (r1, w1)
    \<and> lua_consumer_subscribe K [LConsumer (Some a), LTable [(LNumber 1, LString t2)]] w1
        = Inr (r2, w2)
    \<and> heap w2 a = Some c2
    \<and> topics c2 = Some (previous_topics c @ [(cstr t1, -1), (cstr t2, -1)])
    \<and> calls w2 = calls w @ list_allocation c
          @ [Topic_partition_list_add (cstr t1) (-1),
             Subscribe r (previous_topics c @ [(cstr t1, -1)]),
             Topic_partition_list_add (cstr t2) (-1),
             Subscribe r (previous_topics c @ [(cstr t1, -1), (cstr t2, -1)])]"
proof -
  let ?c1 = "c\<lparr>topics := Some (previous_topics c @ [(cstr t1, -1)])\<rparr>"
  let ?c2 = "c\<lparr>topics := Some (previous_topics c @ [(cstr t1, -1), (cstr t2, -1)])\<rparr>"
  obtain r1 w1 where
    s1: "lua_consumer_subscribe K [LConsumer (Some a), LTable [(LNumber 1, LString t1)]] w
           = Inr (r1, w1)"
    and h1: "heap w1 a = Some ?c1"
    and l1: "calls w1 = calls w @ list_allocation c
               @ [Topic_partition_list_add (cstr t1) (-1),
                  Subscribe r (previous_topics c @ [(cstr t1, -1)])]"
    using subscribe_appends [OF c r fits, of "[(LNumber 1, t1)]"]
    by (auto simp: string_table_def topic_entries_def add_calls_def)
  have r1: "rd_consumer ?c1 = Some r"
    using r by simp
  have p1: "previous_topics ?c1 = previous_topics c @ [(cstr t1, -1)]"
    by (simp add: previous_topics_def)
  have a1: "list_allocation ?c1 = []"
    by (simp add: list_allocation_def)
  obtain r2 w2 where
    s2: "lua_consumer_subscribe K [LConsumer (Some a), LTable [(LNumber 1, LString t2)]] w1
           = Inr (r2, w2)"
    and h2: "heap w2 a = Some ?c2"
    and l2: "calls w2 = calls w1 @ [Topic_partition_list_add (cstr t2) (-1),
          Subscribe r (previous_topics c @ [(cstr t1, -1), (cstr t2, -1)])]"
    using subscribe_appends [OF h1 r1 fits, of "[(LNumber 1, t2)]"]
    by (auto simp: string_table_def topic_entries_def add_calls_def p1 a1)
  have "topics ?c2 = Some (previous_topics c @ [(cstr t1, -1), (cstr t2, -1)])"
    by simp
  with s1 s2 h2 l1 l2 show ?thesis
    by (intro exI [of _ r1] exI [of _ w1] exI [of _ r2] exI [of _ w2] exI [of _ ?c2]) simp
qed

theorem subscribe_accumulates_witness:
  "\<exists>r1 w1 r2 w2 c2.
      lua_consumer_subscribe stub_ok [LConsumer (Some 6), LTable [(LNumber 1, LString ''t1'')]]
        world1 = Inr (r1, w1)
    \<and> lua_consumer_subscribe stub_ok [LConsumer (Some 6), LTable [(LNumber 1, LString ''t2'')]]
        w1 = Inr (r2, w2)
    \<and> heap w2 6 = Some c2
    \<and> topics c2 = Some [(''t1'', -1), (''t2'', -1)]
    \<and> calls w2 = calls world1 @ [Topic_partition_list_new,
          Topic_partition_list_add ''t1'' (-1), Subscribe 3 [(''t1'', -1)],
          Topic_partition_list_add ''t2'' (-1), Subscribe 3 [(''t1'', -1), (''t2'', -1)]]"
proof -
  have c: "heap world1 6 = Some consumer0" by (simp add: world1_def)
  have r: "rd_consumer consumer0 = Some 3" by (simp add: consumer0_def)
  have fits: "\<forall>code. length (cstr (err2str stub_ok code)) < 512"
    by (simp add: stub_ok_def cstr_def NUL_def)
  have t: "cstr ''t1'' = ''t1''" "cstr ''t2'' = ''t2''"
    by (simp_all add: cstr_def NUL_def)
  have p: "previous_topics consumer0 = []"
    by (simp add: previous_topics_def consumer0_def)
  have a: "list_allocation consumer0 = [Topic_partition_list_new]"
    by (simp add: list_allocation_def consumer0_def)
  show ?thesis
    using subscribe_accumulates [OF c r fits, of "''t1''" "''t2''"] unfolding t p a
    by simp
qed

section \<open>Properties of the record drain loop\<close>

lemma message_handle_first:
  "ev_msgs e = m # ms \<Longrightarrow> message_handle e = handle m e"
  by (simp add: message_handle_def handle_def rd_kafka_event_message_next_def)

lemma delivered_answer: "delivered (answer x) = forwarded x"
  by (cases x) (simp_all add: fetch_event_def message_handle_first)

lemma poll_effects_answer: "poll_effects (answer x) = loop_effects x"
  by (cases x) (simp_all add: fetch_event_def message_handle_first)

lemma poll_msg_iteration_step:
  assumes c: "heap w a = Some c" and q: "rd_msg_queue c = Some q"
    and ud: "consumer_ud self = LConsumer (Some a)"
    and "open": "\<not> closed (output_ch self)"
    and room: "length (items (output_ch self)) < capacity (output_ch self)"
    and script: "poll_script w = x # later"
  shows "poll_msg_iteration self w = Inr (drain_state q [x] later (self, w))"
proof (cases x)
  case None
  then show ?thesis
    using c q ud script
    by (simp add: poll_msg_iteration_def lua_consumer_poll_msg_def lua_check_consumer_def
        deref_def rd_kafka_queue_poll_def ret_def drain_state_def effect_def call_def)
next
  case (Some e)
  then show ?thesis
    using c q ud script "open" room
    by (simp add: poll_msg_iteration_def lua_consumer_poll_msg_def lua_check_consumer_def
        deref_def rd_kafka_queue_poll_def ret_def drain_state_def effect_def call_def
        channel_put_def message_handle_def)
qed

lemma drain_run:
  assumes c: "heap w a = Some c" and q: "rd_msg_queue c = Some q"
    and ud: "consumer_ud self = LConsumer (Some a)"
    and "open": "\<not> closed (output_ch self)"
    and room: "length (items (output_ch self)) + length script \<le> capacity (output_ch self)"
    and script: "poll_script w = script @ later"
  shows "Consumer_poll_msg (length script) self w = Inr (drain_state q script later (self, w))"
  using assms
proof (induction script arbitrary: self w)
  case Nil
  then show ?case by (simp add: drain_state_def)
next
  case (Cons x script)
  obtain self1 w1 where sw1: "drain_state q [x] (script @ later) (self, w) = (self1, w1)"
    by (cases "drain_state q [x] (script @ later) (self, w)")
  have step: "poll_msg_iteration self w = Inr (self1, w1)"
    using poll_msg_iteration_step [of w a c q self x "script @ later"] Cons.prems sw1 by simp
  have self1: "self1 = self\<lparr>output_ch := (output_ch self)
                   \<lparr>items := items (output_ch self) @ delivered x\<rparr>\<rparr>"
    and w1: "w1 = w\<lparr>calls := calls w @ poll_calls q x, poll_script := script @ later,
                    host := host w @ poll_effects x\<rparr>"
    using sw1 by (auto simp: drain_state_def)
  have len: "length (delivered x) \<le> 1" by (cases x) auto
  have "Consumer_poll_msg (length script) self1 w1 = Inr (drain_state q script later (self1, w1))"
  proof (rule Cons.IH)
    show "heap w1 a = Some c" using Cons.prems(1) by (simp add: w1)
    show "rd_msg_queue c = Some q" by fact
    show "consumer_ud self1 = LConsumer (Some a)" using Cons.prems(3) by (simp add: self1)
    show "\<not> closed (output_ch self1)" using Cons.prems(4) by (simp add: self1)
    show "length (items (output_ch self1)) + length script \<le> capacity (output_ch self1)"
      using Cons.prems(5) len by (simp add: self1)
    show "poll_script w1 = script @ later" by (simp add: w1)
  qed
  moreover have "drain_state q script later (self1, w1)
      = drain_state q (x # script) later (self, w)"
    by (simp add: drain_state_def self1 w1)
  ultimately show ?case
    by (simp add: step)
qed

text \<open>
  Claim C4.  Let the record queue answer the coming polls with any sequence made of "no
  data" and "one fetched record" (in particular an alternating one), and let the channel
  be open with room for the sequence.  Then the drain loop completes one iteration per
  answer; the channel receives the handles of exactly these records, in the order of
  the answers; and the host sees one 10 ms sleep for each empty poll and a put followed
  by a yield for each record, in that order and nothing else.
\<close>

theorem drain_forwards_in_order:
  assumes c: "heap w a = Some c" and q: "rd_msg_queue c = Some q"
    and ud: "consumer_ud self = LConsumer (Some a)"
    and "open": "\<not> closed (output_ch self)"
    and room: "length (items (output_ch self)) + length answers \<le> capacity (output_ch self)"
    and script: "poll_script w = map answer answers @ later"
  shows "\<exists>self' w'.
      Consumer_poll_msg (length answers) self w = Inr (self', w')
    \<and> items (output_ch self') = items (output_ch self) @ concat (map forwarded answers)
    \<and> host w' = host w @ concat (map loop_effects answers)
    \<and> poll_script w' = later"
proof -
  have "Consumer_poll_msg (length (map answer answers)) self w
      = Inr (drain_state q (map answer answers) later (self, w))"
    using c q ud "open" room script by (intro drain_run) simp_all
  then show ?thesis
    by (simp add: drain_state_def map_concat comp_def delivered_answer poll_effects_answer)
qed

theorem drain_forwards_in_order_witness:
  "\<exists>self' w'.
      Consumer_poll_msg 4 facade0 (world1\<lparr>poll_script := map answer alternating_answers\<rparr>)
        = Inr (self', w')
    \<and> items (output_ch self') = [handle order_record (fetch_event 10 [order_record]),
                                  handle absent_record (fetch_event 11 [absent_record])]
    \<and> host w' = [Sleep_ms 10,
                 Channel_put (handle order_record (fetch_event 10 [order_record])), Yield,
                 Sleep_ms 10,
                 Channel_put (handle absent_record (fetch_event 11 [absent_record])), Yield]
    \<and> poll_script w' = []"
proof -
  have c: "heap (world1\<lparr>poll_script := map answer alternating_answers\<rparr>) 6 = Some consumer0"
    by (simp add: world1_def)
  have q: "rd_msg_queue consumer0 = Some 5" by (simp add: consumer0_def)
  have ud: "consumer_ud facade0 = LConsumer (Some 6)" by (simp add: facade0_def)
  have op: "\<not> closed (output_ch facade0)" by (simp add: facade0_def)
  have room: "length (items (output_ch facade0)) + length alternating_answers
      \<le> capacity (output_ch facade0)"
    by (simp add: facade0_def alternating_answers_def)
  have script: "poll_script (world1\<lparr>poll_script := map answer alternating_answers\<rparr>)
      = map answer alternating_answers @ []"
    by simp
  have n: "length alternating_answers = 4" by (simp add: alternating_answers_def)
  have h: "host (world1\<lparr>poll_script := map answer alternating_answers\<rparr>) = []"
    by (simp add: world1_def)
  have i: "items (output_ch facade0) = []" by (simp add: facade0_def)
  show ?thesis
    using drain_forwards_in_order [OF c q ud op room script] unfolding n h i
    by (simp add: alternating_answers_def)
qed

text \<open>
  Claim C9.  Let the next answer of the record queue be a fetched event \<open>e\<close> holding
  more than one record, \<open>m\<close> being the first.  Then \<^verbatim>\<open>poll_msg\<close> returns one handle, on
  \<open>m\<close> and owning \<open>e\<close>, and takes the event off the queue; whatever the queue answers
  afterwards, the drain loop puts on the channel that one handle for \<open>e\<close>, followed only
  by what the later answers deliver, so the other records of \<open>e\<close> are never put on it;
  releasing the handle destroys the event \<open>e\<close>, and releasing it again does nothing.
\<close>

theorem first_record_only:
  assumes c: "heap w a = Some c" and q: "rd_msg_queue c = Some q"
    and ud: "consumer_ud self = LConsumer (Some a)"
    and "open": "\<not> closed (output_ch self)"
    and room: "length (items (output_ch self)) + Suc (length script) \<le> capacity (output_ch self)"
    and script: "poll_script w = Some e # script @ later"
    and fetch: "ev_type e = RD_KAFKA_EVENT_FETCH"
    and many: "ev_msgs e = m # m' # ms"
  shows "lua_consumer_poll_msg [LConsumer (Some a)] w
           = Inr ([handle m e],
                  w\<lparr>calls := calls w @ [Queue_poll q], poll_script := script @ later\<rparr>)
    \<and> (\<exists>self' w'. Consumer_poll_msg (Suc (length script)) self w = Inr (self', w')
          \<and> items (output_ch self')
              = items (output_ch self) @ [handle m e] @ concat (map delivered script)
          \<and> poll_script w' = later)
    \<and> lua_consumer_msg_gc [handle m e] w0
         = Inr (LMessage None, call (Event_destroy (ev_id e)) w0)
    \<and> lua_consumer_msg_gc [LMessage None] w0 = Inr (LMessage None, w0)"
proof -
  have first: "message_handle e = handle m e"
    using many by (rule message_handle_first)
  have poll: "lua_consumer_poll_msg [LConsumer (Some a)] w
           = Inr ([handle m e],
                  w\<lparr>calls := calls w @ [Queue_poll q], poll_script := script @ later\<rparr>)"
    using c q script fetch first
    by (simp add: lua_consumer_poll_msg_def lua_check_consumer_def deref_def
        rd_kafka_queue_poll_def call_def)
  have "Consumer_poll_msg (length (Some e # script)) self w
      = Inr (drain_state q (Some e # script) later (self, w))"
    using c q ud "open" room script by (intro drain_run) simp_all
  then have run: "\<exists>self' w'. Consumer_poll_msg (Suc (length script)) self w = Inr (self', w')
          \<and> items (output_ch self')
              = items (output_ch self) @ [handle m e] @ concat (map delivered script)
          \<and> poll_script w' = later"
    using fetch first by (simp add: drain_state_def)
  have gc: "lua_consumer_msg_gc [handle m e] w0
      = Inr (LMessage None, call (Event_destroy (ev_id e)) w0)"
    by (simp add: lua_consumer_msg_gc_def handle_def)
  have gc2: "lua_consumer_msg_gc [LMessage None] w0 = Inr (LMessage None, w0)"
    by (simp add: lua_consumer_msg_gc_def)
  from poll run gc gc2 show ?thesis by blast
qed

theorem first_record_only_witness:
  "lua_consumer_poll_msg [LConsumer (Some 6)]
       (world1\<lparr>poll_script := [Some (fetch_event 12 [order_record, absent_record]), None]\<rparr>)
     = Inr ([handle order_record (fetch_event 12 [order_record, absent_record])],
            world1\<lparr>calls := calls world1 @ [Queue_poll 5], poll_script := [None]\<rparr>)
   \<and> (\<exists>self' w'. Consumer_poll_msg 2 facade0
          (world1\<lparr>poll_script := [Some (fetch_event 12 [order_record, absent_record]), None]\<rparr>)
            = Inr (self', w')
        \<and> items (output_ch self')
            = [handle order_record (fetch_event 12 [order_record, absent_record])]
        \<and> poll_script w' = [])
   \<and> lua_consumer_msg_gc [handle order_record (fetch_event 12 [order_record, absent_record])]
        world1 = Inr (LMessage None, call (Event_destroy 12) world1)
   \<and> lua_consumer_msg_gc [LMessage None] world1 = Inr (LMessage None, world1)"
proof -
  let ?e = "fetch_event 12 [order_record, absent_record]"
  let ?w = "world1\<lparr>poll_script := [Some ?e, None]\<rparr>"
  have c: "heap ?w 6 = Some consumer0" by (simp add: world1_def)
  have q: "rd_msg_queue consumer0 = Some 5" by (simp add: consumer0_def)
  have ud: "consumer_ud facade0 = LConsumer (Some 6)" by (simp add: facade0_def)
  have op: "\<not> closed (output_ch facade0)" by (simp add: facade0_def)
  have room: "length (items (output_ch facade0)) + Suc (length [None :: rd_event option])
      \<le> capacity (output_ch facade0)"
    by (simp add: facade0_def)
  have script: "poll_script ?w = Some ?e # [None] @ []" by simp
  have fetch: "ev_type ?e = RD_KAFKA_EVENT_FETCH" by (simp add: fetch_event_def)
  have many: "ev_msgs ?e = order_record # absent_record # []" by (simp add: fetch_event_def)
  have i: "items (output_ch facade0) = []" by (simp add: facade0_def)
  have id: "ev_id ?e = 12" by (simp add: fetch_event_def)
  have two: "Suc (length [None :: rd_event option]) = 2" by simp
  show ?thesis
    using first_record_only [OF c q ud op room script fetch many, of world1]
    unfolding i id two
    by simp
qed

section \<open>Properties of close\<close>

lemma create_config0:
  "lua_create_consumer stub_ok [config0] world0 = Some (Inr ([LConsumer (Some 6)], world1))"
  by (simp add: lua_create_consumer_def config0_def world0_def world1_def consumer0_def
      stub_ok_def new_consumer_def fresh_def call_def cstr_def NUL_def eval_nat_numeral)

lemma Consumer_create_config0:
  "Consumer_create stub_ok config0 world0
     = Some (Inr ((Some facade0, LNil), effect spawned world1))"
  by (simp add: Consumer_create_def create_config0 ret_def facade0_def spawned_def)
     (simp add: config0_def)

lemma consumer_close_first:
  "consumer_close stub_ok 6 (effect (spawned @ cancelled) world1) = Inr (0, world_closed)"
  by (simp add: consumer_close_def deref_def world1_def effect_def consumer0_def
      destroy_queue_def call_def free_def stub_ok_def world_closed_def teardown_def fun_eq_iff)

lemma Consumer_close_first:
  "Consumer_close stub_ok facade0 (effect spawned world1) = Inr (LNil, facade_closed, world_closed)"
proof -
  have e: "effect [Fiber_cancel Loop_poll_msg, Fiber_cancel Loop_poll, Channel_close]
             (effect spawned world1) = effect (spawned @ cancelled) world1"
    by (simp add: effect_def cancelled_def)
  show ?thesis
    by (simp add: Consumer_close_def facade0_def e lua_consumer_close_def consumer_close_first
        ret_def facade_closed_def)
qed

text \<open>
  Claim C1, evaluated.  A facade is created on a native client whose calls all succeed, and
  closed: the first \<open>close()\<close> returns nil and leaves the state \<open>world_closed\<close>, in which
  the struct is freed.  A second \<open>close()\<close> on the same facade does not return
  success: it raises, the field \<^verbatim>\<open>_consumer\<close> being nil.  On the userdata itself, whose
  pointer the first close did not reset, both a second \<^verbatim>\<open>lua_consumer_close\<close> and the
  finalizer \<^verbatim>\<open>lua_consumer_gc\<close> run \<^verbatim>\<open>consumer_close\<close> on the freed struct.
\<close>

theorem second_close_fails:
  "Consumer_create stub_ok config0 world0
     = Some (Inr ((Some facade0, LNil), effect spawned world1))
   \<and> Consumer_close stub_ok facade0 (effect spawned world1)
       = Inr (LNil, facade_closed, world_closed)
   \<and> Consumer_close stub_ok facade_closed world_closed = Inl (Raise index_nil)
   \<and> lua_consumer_close stub_ok [LConsumer (Some 6)] world_closed = Inl (Crash UseAfterFree)
   \<and> lua_consumer_gc stub_ok [LConsumer (Some 6)] world_closed = Inl (Crash UseAfterFree)"
proof -
  have h: "heap world_closed 6 = None" by (simp add: world_closed_def)
  have a: "Consumer_close stub_ok facade_closed world_closed = Inl (Raise index_nil)"
    by (simp add: Consumer_close_def facade_closed_def)
  have b: "consumer_close stub_ok 6 world_closed = Inl (Crash UseAfterFree)"
    by (simp add: consumer_close_def deref_def h)
  show ?thesis
    by (simp add: Consumer_create_config0 Consumer_close_first a lua_consumer_close_def
        lua_consumer_gc_def b)
qed

text \<open>
  Claim C7, evaluated.  The consumer of \<open>world1\<close> has subscribed to one topic, and the
  native consumer-close call answers with the error code \<open>-195\<close>.  \<^verbatim>\<open>consumer_close\<close>
  then returns that code right after the call: the record queue is destroyed and the
  native close is made, but the event queue is not destroyed, the topic list is not
  destroyed, and the struct is neither freed nor changed.  \<^verbatim>\<open>lua_consumer_close\<close> reports
  true together with the error text.
\<close>

theorem close_error_skips_teardown:
  "consumer_close (stub_err (-195)) 6 world_subscribed
     = Inr (-195, world_subscribed\<lparr>calls := calls world1 @ [Queue_destroy 5, Kafka_consumer_close 3]\<rparr>)
   \<and> lua_consumer_close (stub_err (-195)) [LConsumer (Some 6)] world_subscribed
     = Inr ([LBool True, LString ''Local: Bad message format''],
            world_subscribed\<lparr>calls := calls world1 @ [Queue_destroy 5, Kafka_consumer_close 3]\<rparr>)
   \<and> heap world_subscribed 6 = Some (consumer0\<lparr>topics := Some [(''t1'', -1)]\<rparr>)
   \<and> Queue_destroy 4 \<notin> set (calls world1 @ [Queue_destroy 5, Kafka_consumer_close 3])
   \<and> Topic_partition_list_destroy \<notin> set (calls world1 @ [Queue_destroy 5, Kafka_consumer_close 3])
   \<and> Free 6 \<notin> set (calls world1 @ [Queue_destroy 5, Kafka_consumer_close 3])"
proof -
  have h: "heap world_subscribed 6 = Some (consumer0\<lparr>topics := Some [(''t1'', -1)]\<rparr>)"
    by (simp add: world_subscribed_def set_topics_def world1_def)
  have c: "calls world_subscribed = calls world1"
    by (simp add: world_subscribed_def set_topics_def world1_def)
  have a: "consumer_close (stub_err (-195)) 6 world_subscribed
     = Inr (-195, world_subscribed\<lparr>calls := calls world1 @ [Queue_destroy 5, Kafka_consumer_close 3]\<rparr>)"
    by (simp add: consumer_close_def deref_def h consumer0_def destroy_queue_def call_def
        stub_err_def c)
  have p: "push_err_str (stub_err (-195)) (-195) = Inr (LString ''Local: Bad message format'')"
    by (simp add: push_err_str_def strcpy_into_def safe_pushstring_def stub_err_def cstr_def
        NUL_def)
  show ?thesis
    by (simp add: a h lua_consumer_close_def p) (simp add: world1_def)
qed

section \<open>Properties of create\<close>

lemma options_loop_Cons:
  "options_loop K conf tbl (entry # rest') w =
     (if \<not> lua_isstring (snd entry) \<or> \<not> lua_isstring (fst entry)
          then Some (Returned [LNil, safe_pushstring options_msg] w)
          else
            (case (lua_tostring (snd entry), lua_tostring (fst entry)) of
               (Some val, Some ky) \<Rightarrow>
                 (case conf_set_result K ky val of
                    Some errstr \<Rightarrow>
                      Some (Returned [LNil, safe_pushstring errstr] (call (Conf_set conf ky val) w))
                  | None \<Rightarrow>
                     (case fst entry of
                        LString _ \<Rightarrow> options_loop K conf tbl rest' (call (Conf_set conf ky val) w)
                      | _ \<Rightarrow>
                         (case entries_after (LString ky) tbl of
                            None \<Rightarrow> Some (Failed (Raise invalid_key))
                          | Some rest'' \<Rightarrow>
                              options_loop K conf tbl rest'' (call (Conf_set conf ky val) w))))
             | _ \<Rightarrow> Some (Failed (Crash NullDeref))))"
  by (subst options_loop.simps) simp

lemma options_loop_Nil: "options_loop K conf tbl [] w = Some (Completed w)"
  by (subst options_loop.simps) simp

lemma cstr_options_msg: "cstr options_msg = options_msg"
  by (simp add: cstr_def options_msg_def NUL_def)

lemma cstr_brokers_msg: "cstr brokers_msg = brokers_msg"
  by (simp add: cstr_def brokers_msg_def NUL_def)

lemma cstr_literals:
  "cstr ''localhost:9092'' = ''localhost:9092''"
  "cstr ''enable.auto.commit'' = ''enable.auto.commit''"
  "cstr ''group.id'' = ''group.id''"
  "cstr ''test_consumer'' = ''test_consumer''"
  "cstr ''fetch.min.bytes'' = ''fetch.min.bytes''"
  by (simp_all add: cstr_def NUL_def)

lemma show_int_literals: "show_int 9092 = ''9092''" "show_int 1 = ''1''"
  by (simp_all add: show_int_def digits.simps digit_char_def)

lemma tostring_None_iff: "lua_tostring v = None \<longleftrightarrow> \<not> lua_isstring v"
  by (cases v) simp_all

lemma create_bad_options:
  "lua_create_consumer stub_ok [bad_options_config] world0
      = Some (Inr ([LNil, LString options_msg], world_leak))"
  by (simp add: lua_create_consumer_def bad_options_config_def world0_def world_leak_def
      fresh_def call_def options_loop_Cons safe_pushstring_def cstr_options_msg
      cstr_literals eval_nat_numeral)

lemma create_numeric:
  "returned_values (lua_create_consumer stub_ok [numeric_config] world0)
     = Some [LConsumer (Some 6)]"
  by (simp add: lua_create_consumer_def numeric_config_def world0_def fresh_def call_def
      options_loop_Cons options_loop_Nil cstr_literals show_int_literals stub_ok_def
      new_consumer_def returned_values_def eval_nat_numeral)

lemma options_loop_rejects:
  assumes good: "\<forall>entry \<in> set good. accepted_entry K entry"
    and bad: "\<not> lua_isstring k \<or> \<not> lua_isstring v"
  shows "options_loop K conf tbl (good @ (k, v) # rest) w
     = Some (Returned [LNil, LString options_msg]
               (w\<lparr>calls := calls w @ concat (map (conf_set_call conf) good)\<rparr>))"
  using good
proof (induction good arbitrary: w)
  case Nil
  then show ?case
    using bad by (auto simp: options_loop_Cons safe_pushstring_def cstr_options_msg)
next
  case (Cons entry good)
  obtain ek ev where entry: "entry = (ek, ev)" by (cases entry)
  from Cons.prems have acc: "accepted_entry K (ek, ev)" by (simp add: entry)
  then obtain s where ek: "ek = LString s" by (cases ek) simp_all
  from acc obtain val where val: "lua_tostring ev = Some val"
    and ok: "conf_set_result K (cstr s) val = None"
    by (auto simp: ek split: option.splits)
  have str: "lua_isstring ev" using val tostring_None_iff [of ev] by auto
  have "options_loop K conf tbl ((entry # good) @ (k, v) # rest) w
     = options_loop K conf tbl (good @ (k, v) # rest) (call (Conf_set conf (cstr s) val) w)"
    by (simp add: options_loop_Cons entry ek val ok str)
  also have "\<dots> = Some (Returned [LNil, LString options_msg]
       ((call (Conf_set conf (cstr s) val) w)
          \<lparr>calls := calls (call (Conf_set conf (cstr s) val) w)
                      @ concat (map (conf_set_call conf) good)\<rparr>))"
    using Cons.prems by (intro Cons.IH) simp
  finally show ?case
    by (simp add: entry ek val call_def)
qed

lemma allocations_conf_set: "filter is_allocation (concat (map (conf_set_call conf) good)) = []"
  by (induction good) (auto split: option.splits)

text \<open>
  Claim C2 as stated fails.  With a string under \<open>brokers\<close> and an option whose value is
  a boolean, \<^verbatim>\<open>create_consumer\<close> on a state without any native allocation does return
  nil and the options error, but by then the native configuration and the topic
  configuration have been allocated.  And numbers are not rejected: with the number
  9092 under \<open>brokers\<close> and a number as an option value, creation succeeds.
\<close>

theorem create_bad_options_allocates:
  "lua_create_consumer stub_ok [bad_options_config] world0
      = Some (Inr ([LNil, LString options_msg], world_leak))
   \<and> native_allocations world0 = []
   \<and> native_allocations world_leak = [Conf_new 1, Topic_conf_new 2]
   \<and> returned_values (lua_create_consumer stub_ok [numeric_config] world0)
       = Some [LConsumer (Some 6)]"
  by (simp add: create_bad_options create_numeric)
     (simp add: native_allocations_def world0_def world_leak_def)

text \<open>
  Claim C2, amended.  When the \<open>brokers\<close> entry of the configuration table is missing or
  is neither a string nor a number, \<^verbatim>\<open>create_consumer\<close> returns nil and the brokers
  error and leaves the state as it was: no native call is made.  When \<open>brokers\<close> is a
  string or a number and the \<open>options\<close> table holds, after any number of string-keyed
  entries that the native configuration accepts, an entry whose key or value is neither
  a string nor a number, it returns nil and the options error; at that point the native
  configuration and the topic configuration are the only allocations made, and no
  consumer struct exists.
\<close>

theorem create_config_errors:
  "(lua_tostring (lua_gettable cfg (LString ''brokers'')) = None \<longrightarrow>
      lua_create_consumer K [LTable cfg] w = Some (Inr ([LNil, LString brokers_msg], w)))
   \<and> (\<forall>good k v rest.
        lua_tostring (lua_gettable cfg (LString ''brokers'')) \<noteq> None
        \<and> lua_gettable cfg (LString ''options'') = LTable (good @ (k, v) # rest)
        \<and> (\<forall>entry \<in> set good. accepted_entry K entry)
        \<and> (\<not> lua_isstring k \<or> \<not> lua_isstring v)
        \<longrightarrow> (\<exists>w'. lua_create_consumer K [LTable cfg] w
                      = Some (Inr ([LNil, LString options_msg], w'))
              \<and> native_allocations w'
                  = native_allocations w @ [Conf_new (next_id w), Topic_conf_new (next_id w + 1)]
              \<and> heap w' = heap w))"
proof (intro conjI allI impI)
  assume "lua_tostring (lua_gettable cfg (LString ''brokers'')) = None"
  then show "lua_create_consumer K [LTable cfg] w = Some (Inr ([LNil, LString brokers_msg], w))"
    by (simp add: lua_create_consumer_def safe_pushstring_def cstr_brokers_msg)
next
  fix good k v rest
  assume a: "lua_tostring (lua_gettable cfg (LString ''brokers'')) \<noteq> None
        \<and> lua_gettable cfg (LString ''options'') = LTable (good @ (k, v) # rest)
        \<and> (\<forall>entry \<in> set good. accepted_entry K entry)
        \<and> (\<not> lua_isstring k \<or> \<not> lua_isstring v)"
  then obtain brokers where
    b: "lua_tostring (lua_gettable cfg (LString ''brokers'')) = Some brokers"
    by auto
  from a have opts: "lua_gettable cfg (LString ''options'') = LTable (good @ (k, v) # rest)"
    and good: "\<forall>entry \<in> set good. accepted_entry K entry"
    and bad: "\<not> lua_isstring k \<or> \<not> lua_isstring v"
    by simp_all
  show "\<exists>w'. lua_create_consumer K [LTable cfg] w = Some (Inr ([LNil, LString options_msg], w'))
              \<and> native_allocations w'
                  = native_allocations w @ [Conf_new (next_id w), Topic_conf_new (next_id w + 1)]
              \<and> heap w' = heap w"
    by (simp add: lua_create_consumer_def b opts fresh_def call_def
        options_loop_rejects [OF good bad] native_allocations_def allocations_conf_set)
qed

theorem create_config_errors_witness:
  "lua_create_consumer stub_ok [LTable []] world0 = Some (Inr ([LNil, LString brokers_msg], world0))
   \<and> (\<exists>w'. lua_create_consumer stub_ok [LTable guarded_config] world0
              = Some (Inr ([LNil, LString options_msg], w'))
          \<and> native_allocations w' = native_allocations world0 @ [Conf_new 1, Topic_conf_new 2]
          \<and> heap w' = heap world0)"
proof -
  have b: "lua_tostring (lua_gettable [] (LString ''brokers'')) = None" by simp
  have h: "lua_tostring (lua_gettable guarded_config (LString ''brokers'')) \<noteq> None
        \<and> lua_gettable guarded_config (LString ''options'')
            = LTable ([(LString ''group.id'', LString ''test_consumer'')]
                       @ (LString ''enable.auto.commit'', LBool False) # [])
        \<and> (\<forall>entry \<in> set [(LString ''group.id'', LString ''test_consumer'')].
              accepted_entry stub_ok entry)
        \<and> (\<not> lua_isstring (LString ''enable.auto.commit'') \<or> \<not> lua_isstring (LBool False))"
    by (simp add: guarded_config_def stub_ok_def)
  have n: "next_id world0 = 1" by (simp add: world0_def)
  show ?thesis
    using create_config_errors [of "[]" stub_ok world0, THEN conjunct1, rule_format, OF b]
      create_config_errors [of guarded_config stub_ok world0, THEN conjunct2, rule_format, OF h]
    unfolding n by (simp add: eval_nat_numeral)
qed

lemma host_call: "host (call c w) = host w"
  by (simp add: call_def)

lemma options_loop_host:
  assumes "options_loop K conf tbl rest w = Some r"
  shows "result_host r = None \<or> result_host r = Some (host w)"
proof (rule options_loop.raw_induct
    [where P = "\<lambda>K conf tbl rest w r. result_host r = None \<or> result_host r = Some (host w)",
     OF _ assms])
  fix f K conf tbl rest w r
  assume IH: "\<And>K conf tbl rest w r. f K conf tbl rest w = Some r
      \<Longrightarrow> result_host r = None \<or> result_host r = Some (host w)"
    and body: "(case rest of
        [] \<Rightarrow> Some (Completed w)
      | entry # rest' \<Rightarrow>
          if \<not> lua_isstring (snd entry) \<or> \<not> lua_isstring (fst entry)
          then Some (Returned [LNil, safe_pushstring options_msg] w)
          else
            (case (lua_tostring (snd entry), lua_tostring (fst entry)) of
               (Some val, Some ky) \<Rightarrow>
                 (case conf_set_result K ky val of
                    Some errstr \<Rightarrow>
                      Some (Returned [LNil, safe_pushstring errstr] (call (Conf_set conf ky val) w))
                  | None \<Rightarrow>
                     (case fst entry of
                        LString _ \<Rightarrow> f K conf tbl rest' (call (Conf_set conf ky val) w)
                      | _ \<Rightarrow>
                         (case entries_after (LString ky) tbl of
                            None \<Rightarrow> Some (Failed (Raise invalid_key))
                          | Some rest'' \<Rightarrow>
                              f K conf tbl rest'' (call (Conf_set conf ky val) w))))
             | _ \<Rightarrow> Some (Failed (Crash NullDeref)))) = Some r"
  show "result_host r = None \<or> result_host r = Some (host w)"
  proof (cases rest)
    case Nil
    with body show ?thesis by auto
  next
    case (Cons entry rest')
    have step: "\<And>rest2 c. f K conf tbl rest2 (call c w) = Some r
        \<Longrightarrow> result_host r = None \<or> result_host r = Some (host w)"
      using IH host_call by metis
    show ?thesis
      using body unfolding Cons
      by (auto simp: host_call split: if_splits option.splits lua_value.splits dest: step)
  qed
qed

lemma new_consumer_host:
  "new_consumer K conf brokers w = Inr (rets, w1) \<Longrightarrow> host w1 = host w"
  by (auto simp: new_consumer_def fresh_def call_def Let_def split: option.splits if_splits)

lemma create_host:
  assumes "lua_create_consumer K args w = Some (Inr (rets, w1))"
  shows "host w1 = host w"
proof -
  obtain cfg where args: "args = [LTable cfg]"
    using assms
    by (auto simp: lua_create_consumer_def split: list.splits lua_value.splits)
  show ?thesis
  proof (cases "lua_tostring (lua_gettable cfg (LString ''brokers''))")
    case None
    with assms show ?thesis by (simp add: lua_create_consumer_def args)
  next
    case (Some brokers)
    let ?w3 = "w\<lparr>next_id := next_id w + 1 + 1,
                  calls := calls w @ [Conf_new (next_id w), Topic_conf_new (next_id w + 1),
                             Conf_set_default_topic_conf (next_id w) (next_id w + 1)]\<rparr>"
    have h3: "host ?w3 = host w" by simp
    show ?thesis
    proof (cases "lua_gettable cfg (LString ''options'')")
      case (LTable opts)
      from assms obtain r where loop: "options_loop K (next_id w) opts opts ?w3 = Some r"
        and r: "(case r of Failed e \<Rightarrow> Inl e | Returned rets w4 \<Rightarrow> Inr (rets, w4)
                  | Completed w4 \<Rightarrow> new_consumer K (next_id w) brokers w4) = Inr (rets, w1)"
        by (auto simp: lua_create_consumer_def args Some LTable fresh_def call_def
            split: option.splits loop_result.splits)
      from options_loop_host [OF loop] h3
      have "result_host r = None \<or> result_host r = Some (host w)"
        by simp
      with r show ?thesis
        by (cases r) (auto dest: new_consumer_host)
    qed (use assms in \<open>auto simp: lua_create_consumer_def args Some fresh_def call_def
            dest!: new_consumer_host\<close>)
  qed
qed

lemma create_not_table:
  "lua_create_consumer K [LString x] w = Some (Inl (Raise ''Usage: create_consumer(conf)''))"
  by (simp add: lua_create_consumer_def)

lemma create_number_key:
  "lua_create_consumer stub_ok [number_key_config] world0 = Some (Inl (Raise invalid_key))"
  by (simp add: lua_create_consumer_def number_key_config_def world0_def fresh_def call_def
      options_loop_Cons cstr_literals show_int_literals stub_ok_def)

text \<open>
  Claim C10 as stated fails: not every error of the native creation step comes back as
  nil plus an error value.  Given a configuration that is not a table, the step raises
  its usage error, and given an option under a number key that the native configuration
  accepts, the table traversal raises; in both cases \<open>Consumer.create\<close> raises as well.
\<close>

theorem create_raises:
  "Consumer_create stub_ok (LString ''localhost:9092'') world0
     = Some (Inl (Raise ''Usage: create_consumer(conf)''))
   \<and> Consumer_create stub_ok number_key_config world0 = Some (Inl (Raise invalid_key))"
  by (simp add: Consumer_create_def create_not_table create_number_key)
     (simp add: number_key_config_def)

text \<open>
  Claim C10, amended.  \<open>Consumer.create(nil)\<close> returns nil and the value
  \<open>config must not be nil\<close> as results, without raising and without touching the state:
  no native call and no host effect.  Whenever the native creation step returns an
  error as its second value, \<open>Consumer.create\<close> returns nil and that error, the state
  is the one the native step left, and the host has seen no effect: no channel and
  neither fiber was created.  Whenever the native creation step raises on a
  configuration other than nil, \<open>Consumer.create\<close> raises the same error and returns
  no facade.
\<close>

theorem create_error_results:
  "Consumer_create K LNil w = Some (Inr ((None, LString ''config must not be nil''), w))
   \<and> (\<forall>cfg rets w1.
        lua_create_consumer K [cfg] w = Some (Inr (rets, w1)) \<and> ret rets 1 \<noteq> LNil \<longrightarrow>
          Consumer_create K cfg w = Some (Inr ((None, ret rets 1), w1)) \<and> host w1 = host w)
   \<and> (\<forall>cfg e.
        lua_create_consumer K [cfg] w = Some (Inl e) \<and> cfg \<noteq> LNil \<longrightarrow>
          Consumer_create K cfg w = Some (Inl e))"
proof (intro conjI allI impI)
  show "Consumer_create K LNil w = Some (Inr ((None, LString ''config must not be nil''), w))"
    by (simp add: Consumer_create_def)
next
  fix cfg rets w1
  assume a: "lua_create_consumer K [cfg] w = Some (Inr (rets, w1)) \<and> ret rets 1 \<noteq> LNil"
  then have "cfg \<noteq> LNil"
    by (auto simp: lua_create_consumer_def)
  with a show "Consumer_create K cfg w = Some (Inr ((None, ret rets 1), w1))"
    by (simp add: Consumer_create_def)
next
  fix cfg rets w1
  assume "lua_create_consumer K [cfg] w = Some (Inr (rets, w1)) \<and> ret rets 1 \<noteq> LNil"
  then show "host w1 = host w"
    using create_host by blast
next
  fix cfg e
  assume "lua_create_consumer K [cfg] w = Some (Inl e) \<and> cfg \<noteq> LNil"
  then show "Consumer_create K cfg w = Some (Inl e)"
    by (simp add: Consumer_create_def)
qed

theorem create_error_results_witness:
  "Consumer_create stub_ok bad_options_config world0
      = Some (Inr ((None, LString options_msg), world_leak))
   \<and> host world_leak = host world0
   \<and> Consumer_create stub_ok (LString ''brokers'') world0
       = Some (Inl (Raise ''Usage: create_consumer(conf)''))"
proof -
  have returned: "lua_create_consumer stub_ok [bad_options_config] world0
          = Some (Inr ([LNil, LString options_msg], world_leak))
        \<and> ret [LNil, LString options_msg] 1 \<noteq> LNil"
    by (simp add: create_bad_options ret_def)
  have raised: "lua_create_consumer stub_ok [LString ''brokers''] world0
          = Some (Inl (Raise ''Usage: create_consumer(conf)'')) \<and> LString ''brokers'' \<noteq> LNil"
    by (simp add: create_not_table)
  from create_error_results [of stub_ok world0, THEN conjunct2, THEN conjunct1, rule_format,
      OF returned]
    create_error_results [of stub_ok world0, THEN conjunct2, THEN conjunct2, rule_format,
      OF raised]
  show ?thesis
    by (simp add: ret_def)
qed

end
